theory Spec2Isabelle
  imports Complex_Main "HOL-Library.Word"
begin

section \<open>JavaScript values, strings and exceptions\<close>

text \<open>
  The adapter (\<^verbatim>\<open>zhipuContentGenerator.ts\<close>, the tool-enabled version) works on
  JavaScript strings and on the values that \<^verbatim>\<open>JSON.parse\<close> and \<^verbatim>\<open>response.json()\<close> return.
  A JavaScript string is a sequence of 16-bit code units; \<open>js\<close> writes an ASCII literal
  of the source as such a sequence.
\<close>

type_synonym jsstring = "16 word list"

definition js :: "string \<Rightarrow> jsstring" where
  "js s = map of_char s"

text \<open>
  A JavaScript number is a double. No function below computes with numbers; they are
  carried through, and only their truthiness is observed, so negative zero is not told
  from zero.
\<close>

datatype jsnum = Finite rat | Infinity bool | NaN

text \<open>
  The values of JavaScript that carry data. \<open>JObj\<close> lists the own properties of a plain
  object; the first binding of a name is the one that is read.
\<close>

datatype jsv =
    JUndefined
  | JNull
  | JBool bool
  | JNum jsnum
  | JStr jsstring
  | JArr "jsv list"
  | JObj "(jsstring \<times> jsv) list"

text \<open>
  What is thrown: the TypeError of a read on \<^verbatim>\<open>undefined\<close> or \<^verbatim>\<open>null\<close>, of a call of
  something that is no function and of an iteration over something not iterable; the
  SyntaxError of \<^verbatim>\<open>JSON.parse\<close>; the rejection of \<^verbatim>\<open>fetch\<close>; the adapter's own error for
  a response that is not ok (\<^verbatim>\<open>Zhipu API error: ${response.status} ${response.statusText}\<close>);
  its error for a streamed response without a body; and the errors
  \<^verbatim>\<open>Zhipu API error: ${errorMessage}\<close> and \<^verbatim>\<open>Zhipu API streaming error: ${errorMessage}\<close>
  in which \<^verbatim>\<open>generateContent\<close> and \<^verbatim>\<open>generateContentStream\<close> wrap whatever they caught.
\<close>

datatype js_error =
    TypeError
  | SyntaxError
  | FetchFailed
  | HttpStatusError
  | BodyIsNull
  | ZhipuApiError js_error
  | ZhipuStreamingError js_error

text \<open>ToBoolean: what \<^verbatim>\<open>if (v)\<close> and \<^verbatim>\<open>v && ...\<close> test.\<close>

fun truthy :: "jsv \<Rightarrow> bool" where
  "truthy JUndefined = False"
| "truthy JNull = False"
| "truthy (JBool b) = b"
| "truthy (JNum (Finite r)) = (r \<noteq> 0)"
| "truthy (JNum (Infinity _)) = True"
| "truthy (JNum NaN) = False"
| "truthy (JStr s) = (s \<noteq> [])"
| "truthy (JArr _) = True"
| "truthy (JObj _) = True"

text \<open>
  \<^verbatim>\<open>String.prototype.trim\<close> removes the WhiteSpace and LineTerminator code units of
  ECMAScript from both ends.
\<close>

definition is_js_space :: "16 word \<Rightarrow> bool" where
  "is_js_space c \<longleftrightarrow>
     c = 0x9 \<or> c = 0xA \<or> c = 0xB \<or> c = 0xC \<or> c = 0xD \<or> c = 0x20 \<or> c = 0xA0 \<or>
     c = 0x1680 \<or> (0x2000 \<le> c \<and> c \<le> 0x200A) \<or> c = 0x2028 \<or> c = 0x2029 \<or>
     c = 0x202F \<or> c = 0x205F \<or> c = 0x3000 \<or> c = 0xFEFF"

definition trim :: "jsstring \<Rightarrow> jsstring" where
  "trim s = rev (dropWhile is_js_space (rev (dropWhile is_js_space s)))"

text \<open>\<^verbatim>\<open>line.startsWith(p)\<close> and \<^verbatim>\<open>line.slice(n)\<close> for \<open>n \<ge> 0\<close>.\<close>

definition startsWith :: "jsstring \<Rightarrow> jsstring \<Rightarrow> bool" where
  "startsWith line p \<longleftrightarrow> take (length p) line = p"

definition slice_from :: "jsstring \<Rightarrow> nat \<Rightarrow> jsstring" where
  "slice_from line n = drop n line"

subsection \<open>Finish reasons\<close>

text \<open>
  The finish reasons of the generic contract (\<^verbatim>\<open>FinishReason\<close> of \<^verbatim>\<open>@google/genai\<close>) that
  the adapter produces.
\<close>

datatype FinishReason = STOP | MAX_TOKENS | SAFETY | FINISH_REASON_UNSPECIFIED

text \<open>
  \<^verbatim>\<open>mapZhipuFinishReason\<close>: a \<^verbatim>\<open>switch\<close> on the vendor's reason, which compares with
  strict equality, so a value that is not one of the three strings takes the default.
\<close>

definition mapZhipuFinishReason :: "jsv \<Rightarrow> FinishReason" where
  "mapZhipuFinishReason zhipuReason =
     (if zhipuReason = JStr (js ''stop'') then STOP
      else if zhipuReason = JStr (js ''length'') then MAX_TOKENS
      else if zhipuReason = JStr (js ''content_filter'') then SAFETY
      else FINISH_REASON_UNSPECIFIED)"

section \<open>The auth selection panel\<close>

text \<open>
  \<^verbatim>\<open>AuthDialog\<close> keeps three pieces of React state; \<^verbatim>\<open>settings.merged.selectedAuthType\<close>
  and the \<^verbatim>\<open>onSelect\<close> callback are props. A handler returns the state after its
  setters have run and the list of calls it made to \<^verbatim>\<open>onSelect\<close>. \<open>AuthType\<close> has the
  members that the panel names, \<open>SettingScope\<close> the one it passes.
\<close>

datatype AuthType = LOGIN_WITH_GOOGLE | USE_GEMINI | USE_OPENAI | USE_ZHIPU









section \<open>The request: generic contents to vendor messages\<close>

text \<open>
  The generic request of \<^verbatim>\<open>@google/genai\<close>. Every field of a part, a function call and a
  function response is optional (\<open>None\<close> when it is missing). \<^verbatim>\<open>convertToZhipuFormat\<close>
  tests \<^verbatim>\<open>'role' in content\<close> and \<^verbatim>\<open>'parts' in content\<close>, so for these two a property
  that is absent is told from one that is present and holds \<^verbatim>\<open>undefined\<close>. A part with
  none of the three fields stands for a part of another kind (inline data, a file, code);
  an element of \<^verbatim>\<open>contents\<close> that is a part and no content is an object with neither
  \<^verbatim>\<open>role\<close> nor \<^verbatim>\<open>parts\<close>. \<^verbatim>\<open>request.contents\<close> is an array of strings and objects, or one
  of them alone.
\<close>

record FunctionCall =
  fc_id :: "jsstring option"
  fc_name :: "jsstring option"
  fc_args :: jsv

record FunctionResponse =
  fr_id :: "jsstring option"
  fr_name :: "jsstring option"
  fr_response :: jsv

record Part =
  part_text :: "jsstring option"
  functionCall :: "FunctionCall option"
  functionResponse :: "FunctionResponse option"

datatype PartUnion = PartString jsstring | PartObject Part

datatype 'a own_property = Absent | Present "'a option"

record Content =
  role :: "jsstring own_property"
  parts :: "PartUnion list own_property"

datatype ContentUnion = ContentString jsstring | ContentObject Content

datatype ContentListUnion = ContentArray "ContentUnion list" | ContentSingle ContentUnion

text \<open>
  The vendor's message (\<^verbatim>\<open>ZhipuMessage\<close>). A function-call item holds \<^verbatim>\<open>name\<close>,
  \<^verbatim>\<open>arguments\<close> and \<^verbatim>\<open>id\<close>, a function-response item \<^verbatim>\<open>name\<close>, \<^verbatim>\<open>content\<close> and \<^verbatim>\<open>id\<close>,
  in this order.
\<close>

datatype ZhipuRole = RoleUser | RoleAssistant | RoleSystem

datatype ZhipuItem =
    TextItem jsstring
  | FunctionCallItem "jsstring option" "jsstring option" "jsstring option"
  | FunctionResponseItem "jsstring option" "jsstring option" "jsstring option"

datatype ZhipuContent = ContentText jsstring | ContentItems "ZhipuItem list"

record ZhipuMessage =
  m_role :: ZhipuRole
  m_content :: ZhipuContent

text \<open>
  The \<^verbatim>\<open>for (const part of content.parts || [])\<close> loop, which pushes each part on one of
  three arrays. The accumulator is \<open>(functionCalls, functionResponses, textParts)\<close>.
\<close>

fun collectParts ::
  "PartUnion list \<Rightarrow> FunctionCall list \<times> FunctionResponse list \<times> jsstring list \<Rightarrow>
     FunctionCall list \<times> FunctionResponse list \<times> jsstring list" where
  "collectParts [] acc = acc"
| "collectParts (PartString s # ps) (fcs, frs, ts) = collectParts ps (fcs, frs, ts @ [s])"
| "collectParts (PartObject p # ps) (fcs, frs, ts) =
     (case part_text p of
        Some t \<Rightarrow>
          if t \<noteq> [] then collectParts ps (fcs, frs, ts @ [t])
          else (case functionCall p of
                  Some fc \<Rightarrow> collectParts ps (fcs @ [fc], frs, ts)
                | None \<Rightarrow>
                    (case functionResponse p of
                       Some fr \<Rightarrow> collectParts ps (fcs, frs @ [fr], ts)
                     | None \<Rightarrow> collectParts ps (fcs, frs, ts)))
      | None \<Rightarrow>
          (case functionCall p of
             Some fc \<Rightarrow> collectParts ps (fcs @ [fc], frs, ts)
           | None \<Rightarrow>
               (case functionResponse p of
                  Some fr \<Rightarrow> collectParts ps (fcs, frs @ [fr], ts)
                | None \<Rightarrow> collectParts ps (fcs, frs, ts))))"

text \<open>
  The role of a message: \<^verbatim>\<open>content.role === 'user' ? 'user' : content.role === 'model' ?
  'assistant' : 'system'\<close>.
\<close>

definition mapRole :: "jsstring option \<Rightarrow> ZhipuRole" where
  "mapRole r =
     (if r = Some (js ''user'') then RoleUser
      else if r = Some (js ''model'') then RoleAssistant
      else RoleSystem)"

text \<open>
  The items of a function-call and of a function-response message. \<open>stringify\<close> is
  \<^verbatim>\<open>JSON.stringify\<close>, which returns a string or \<^verbatim>\<open>undefined\<close> (\<open>None\<close>).
\<close>

definition functionCallItem :: "(jsv \<Rightarrow> jsstring option) \<Rightarrow> FunctionCall \<Rightarrow> ZhipuItem" where
  "functionCallItem stringify fc =
     FunctionCallItem (fc_name fc) (stringify (fc_args fc)) (fc_id fc)"

definition functionResponseItem ::
  "(jsv \<Rightarrow> jsstring option) \<Rightarrow> FunctionResponse \<Rightarrow> ZhipuItem" where
  "functionResponseItem stringify fr =
     FunctionResponseItem (fr_name fr)
       (case fr_response fr of JStr s \<Rightarrow> Some s | v \<Rightarrow> stringify v)
       (fr_id fr)"

text \<open>The body of the loop over \<^verbatim>\<open>request.contents\<close>: the messages one content pushes.\<close>

definition convertContent :: "(jsv \<Rightarrow> jsstring option) \<Rightarrow> ContentUnion \<Rightarrow> ZhipuMessage list" where
  "convertContent stringify content =
     (case content of
        ContentString s \<Rightarrow> [\<lparr>m_role = RoleUser, m_content = ContentText s\<rparr>]
      | ContentObject c \<Rightarrow>
          (case (role c, parts c) of
             (Present r, Present ps) \<Rightarrow>
               (case collectParts (case ps of Some l \<Rightarrow> l | None \<Rightarrow> []) ([], [], []) of
                  (functionCalls, functionResponses, textParts) \<Rightarrow>
                    (if textParts \<noteq> []
                     then [\<lparr>m_role = mapRole r, m_content = ContentText (concat textParts)\<rparr>]
                     else []) @
                    (if functionCalls \<noteq> []
                     then [\<lparr>m_role = mapRole r,
                            m_content = ContentItems (map (functionCallItem stringify) functionCalls)\<rparr>]
                     else []) @
                    (if functionResponses \<noteq> []
                     then [\<lparr>m_role = mapRole r,
                            m_content =
                              ContentItems (map (functionResponseItem stringify) functionResponses)\<rparr>]
                     else []))
           | _ \<Rightarrow> []))"

text \<open>\<^verbatim>\<open>convertToZhipuFormat\<close>, on \<^verbatim>\<open>request.contents\<close>.\<close>

definition convertToZhipuFormat ::
  "(jsv \<Rightarrow> jsstring option) \<Rightarrow> ContentListUnion \<Rightarrow> ZhipuMessage list" where
  "convertToZhipuFormat stringify contents =
     (case contents of
        ContentArray cs \<Rightarrow> concat (map (convertContent stringify) cs)
      | ContentSingle _ \<Rightarrow> [])"

section \<open>The response: vendor JSON to generic parts\<close>

text \<open>
  The generic response. The adapter copies fields of the vendor's JSON into it without
  looking at them, so they are JavaScript values here. The content of a candidate always
  has the role \<^verbatim>\<open>model\<close>. A function-call part holds \<^verbatim>\<open>id\<close>, \<^verbatim>\<open>name\<close> and \<^verbatim>\<open>args\<close>, a
  function-response part \<^verbatim>\<open>id\<close>, \<^verbatim>\<open>name\<close> and \<^verbatim>\<open>response\<close>, in this order.
\<close>

datatype ResponsePart =
    TextPart jsv
  | FunctionCallPart jsv jsv jsv
  | FunctionResponsePart jsv jsv jsv

record Candidate =
  c_index :: jsv
  c_role :: jsstring
  c_parts :: "ResponsePart list"
  c_finishReason :: FinishReason

record UsageMetadata =
  promptTokenCount :: jsv
  candidatesTokenCount :: jsv
  totalTokenCount :: jsv

record GenerateContentResponse =
  responseId :: jsv
  modelVersion :: jsv
  candidates :: "Candidate list"
  usageMetadata :: "UsageMetadata option"

subsection \<open>Computations that log, yield and throw\<close>

text \<open>
  What a piece of the adapter does besides returning a value: it writes to the console,
  the stream generator yields responses and releases the reader, and any step may throw.
  A computation is the list of its events, in order, and then its value or the exception
  that ended it. \<open>ConsoleLog\<close> keeps the template of the source and the values
  interpolated into it.
\<close>

datatype event =
    Yield GenerateContentResponse
  | ConsoleError string js_error
  | ConsoleLog string "jsv list"
  | ReleaseLock

type_synonym 'a comp = "event list \<times> (js_error + 'a)"

definition js_return :: "'a \<Rightarrow> 'a comp" where
  "js_return x = ([], Inr x)"

definition js_throw :: "js_error \<Rightarrow> 'a comp" where
  "js_throw e = ([], Inl e)"

definition emit :: "event \<Rightarrow> unit comp" where
  "emit ev = ([ev], Inr ())"

definition js_bind :: "'a comp \<Rightarrow> ('a \<Rightarrow> 'b comp) \<Rightarrow> 'b comp" where
  "js_bind m f =
     (case m of
        (es, Inl e) \<Rightarrow> (es, Inl e)
      | (es, Inr x) \<Rightarrow> (case f x of (es', r) \<Rightarrow> (es @ es', r)))"

text \<open>\<^verbatim>\<open>try { m } catch (error) { h(error) }\<close> and \<^verbatim>\<open>try { m } finally { ev }\<close>.\<close>

definition js_try :: "'a comp \<Rightarrow> (js_error \<Rightarrow> 'a comp) \<Rightarrow> 'a comp" where
  "js_try m h =
     (case m of
        (es, Inl e) \<Rightarrow> (case h e of (es', r) \<Rightarrow> (es @ es', r))
      | (es, Inr x) \<Rightarrow> (es, Inr x))"

definition js_finally :: "'a comp \<Rightarrow> event \<Rightarrow> 'a comp" where
  "js_finally m ev = (case m of (es, r) \<Rightarrow> (es @ [ev], r))"

text \<open>Loops: \<^verbatim>\<open>for (const x of xs)\<close> whose body pushes parts, and one that only acts.\<close>

fun js_concat_mapM :: "('a \<Rightarrow> 'b list comp) \<Rightarrow> 'a list \<Rightarrow> 'b list comp" where
  "js_concat_mapM f [] = js_return []"
| "js_concat_mapM f (x # xs) =
     js_bind (f x) (\<lambda>ys. js_bind (js_concat_mapM f xs) (\<lambda>zs. js_return (ys @ zs)))"

fun js_for_each :: "('a \<Rightarrow> unit comp) \<Rightarrow> 'a list \<Rightarrow> unit comp" where
  "js_for_each f [] = js_return ()"
| "js_for_each f (x # xs) = js_bind (f x) (\<lambda>_. js_for_each f xs)"

fun js_mapM :: "('a \<Rightarrow> 'b comp) \<Rightarrow> 'a list \<Rightarrow> 'b list comp" where
  "js_mapM f [] = js_return []"
| "js_mapM f (x # xs) =
     js_bind (f x) (\<lambda>y. js_bind (js_mapM f xs) (\<lambda>ys. js_return (y # ys)))"

fun forEach_from :: "(jsv \<Rightarrow> nat \<Rightarrow> unit comp) \<Rightarrow> nat \<Rightarrow> jsv list \<Rightarrow> unit comp" where
  "forEach_from f i [] = js_return ()"
| "forEach_from f i (x # xs) = js_bind (f x i) (\<lambda>_. forEach_from f (Suc i) xs)"

subsection \<open>Reading JavaScript values\<close>

text \<open>
  \<^verbatim>\<open>v.k\<close> for the property names the adapter reads (\<^verbatim>\<open>length\<close> apart, see below): a
  TypeError on \<^verbatim>\<open>undefined\<close> and \<^verbatim>\<open>null\<close>, the own property of an object, and
  \<^verbatim>\<open>undefined\<close> on every other value, since none of the names is a property that
  strings, numbers, booleans or arrays inherit.
\<close>

definition own :: "(jsstring \<times> jsv) list \<Rightarrow> jsstring \<Rightarrow> jsv" where
  "own kvs k = (case map_of kvs k of Some x \<Rightarrow> x | None \<Rightarrow> JUndefined)"

definition get :: "jsv \<Rightarrow> jsstring \<Rightarrow> jsv comp" where
  "get v k =
     (case v of
        JUndefined \<Rightarrow> js_throw TypeError
      | JNull \<Rightarrow> js_throw TypeError
      | JObj kvs \<Rightarrow> js_return (own kvs k)
      | _ \<Rightarrow> js_return JUndefined)"

text \<open>\<^verbatim>\<open>v?.k\<close>.\<close>

definition get_opt :: "jsv \<Rightarrow> jsstring \<Rightarrow> jsv comp" where
  "get_opt v k =
     (case v of JUndefined \<Rightarrow> js_return JUndefined | JNull \<Rightarrow> js_return JUndefined | _ \<Rightarrow> get v k)"

text \<open>
  The two built-in operations whose result the adapter depends on and that are not
  defined here. \<open>json_parse\<close> is \<^verbatim>\<open>JSON.parse\<close> on any argument (it converts its argument
  to a string first), \<open>None\<close> when it throws its SyntaxError. \<open>greater_zero\<close> is the
  comparison \<^verbatim>\<open>x > 0\<close>, which converts \<open>x\<close> to a number and can throw while doing so;
  it is consulted only for the \<^verbatim>\<open>length\<close> property that a plain object holds.
\<close>

record builtins =
  json_parse :: "jsv \<Rightarrow> jsv option"
  greater_zero :: "jsv \<Rightarrow> js_error + bool"

definition JSON_parse :: "builtins \<Rightarrow> jsv \<Rightarrow> jsv comp" where
  "JSON_parse B v = (case json_parse B v of Some x \<Rightarrow> js_return x | None \<Rightarrow> js_throw SyntaxError)"

text \<open>
  \<^verbatim>\<open>v.length\<close> on a value \<open>v\<close> that is truthy, and the test \<^verbatim>\<open>v && v.length > 0\<close>. The
  length of an array and of a string is their number of elements and of code units.
\<close>

definition js_length :: "jsv \<Rightarrow> jsv" where
  "js_length v =
     (case v of
        JArr xs \<Rightarrow> JNum (Finite (of_nat (length xs)))
      | JStr s \<Rightarrow> JNum (Finite (of_nat (length s)))
      | JObj kvs \<Rightarrow> own kvs (js ''length'')
      | _ \<Rightarrow> JUndefined)"

definition has_elements :: "builtins \<Rightarrow> jsv \<Rightarrow> bool comp" where
  "has_elements B v =
     (if \<not> truthy v then js_return False
      else
        (case v of
           JArr xs \<Rightarrow> js_return (xs \<noteq> [])
         | JStr s \<Rightarrow> js_return (s \<noteq> [])
         | JObj kvs \<Rightarrow> ([], greater_zero B (own kvs (js ''length'')))
         | _ \<Rightarrow> js_return False))"

text \<open>
  What \<^verbatim>\<open>for (const x of v)\<close> iterates over: the elements of an array, the code points of
  a string (a surrogate pair is one of them), and a TypeError on a value that is not
  iterable.
\<close>

fun code_points :: "jsstring \<Rightarrow> jsstring list" where
  "code_points [] = []"
| "code_points [c] = [[c]]"
| "code_points (c # d # cs) =
     (if 0xD800 \<le> c \<and> c \<le> 0xDBFF \<and> 0xDC00 \<le> d \<and> d \<le> 0xDFFF
      then [c, d] # code_points cs
      else [c] # code_points (d # cs))"

definition js_iterate :: "jsv \<Rightarrow> jsv list comp" where
  "js_iterate v =
     (case v of
        JArr xs \<Rightarrow> js_return xs
      | JStr s \<Rightarrow> js_return (map JStr (code_points s))
      | _ \<Rightarrow> js_throw TypeError)"

text \<open>
  \<^verbatim>\<open>v.map(f)\<close> and \<^verbatim>\<open>v.forEach(f)\<close>: only an array has these methods; on every other value
  the call is a TypeError.
\<close>

definition js_map :: "jsv \<Rightarrow> (jsv \<Rightarrow> 'a comp) \<Rightarrow> 'a list comp" where
  "js_map v f = (case v of JArr xs \<Rightarrow> js_mapM f xs | _ \<Rightarrow> js_throw TypeError)"

definition js_forEach :: "jsv \<Rightarrow> (jsv \<Rightarrow> nat \<Rightarrow> unit comp) \<Rightarrow> unit comp" where
  "js_forEach v f = (case v of JArr xs \<Rightarrow> forEach_from f 0 xs | _ \<Rightarrow> js_throw TypeError)"

subsection \<open>\<^verbatim>\<open>convertZhipuResponseToParts\<close>\<close>

text \<open>
  The body of the loop over a content array: the parts one item pushes. Nothing catches
  what \<^verbatim>\<open>JSON.parse\<close> throws here.
\<close>

definition contentItemParts :: "builtins \<Rightarrow> jsv \<Rightarrow> ResponsePart list comp" where
  "contentItemParts B item =
     js_bind (get item (js ''type'')) (\<lambda>ty.
       if ty = JStr (js ''text'') then
         js_bind (get item (js ''text'')) (\<lambda>t. js_return [TextPart t])
       else if ty = JStr (js ''function_call'') then
         js_bind (get item (js ''function_call'')) (\<lambda>fc1.
         js_bind (get fc1 (js ''id'')) (\<lambda>i.
         js_bind (get item (js ''function_call'')) (\<lambda>fc2.
         js_bind (get fc2 (js ''name'')) (\<lambda>n.
         js_bind (get item (js ''function_call'')) (\<lambda>fc3.
         js_bind (get fc3 (js ''arguments'')) (\<lambda>a.
         js_bind (JSON_parse B a) (\<lambda>args.
         js_return [FunctionCallPart i n args])))))))
       else if ty = JStr (js ''function_response'') then
         js_bind (get item (js ''function_response'')) (\<lambda>fr1.
         js_bind (get fr1 (js ''id'')) (\<lambda>i.
         js_bind (get item (js ''function_response'')) (\<lambda>fr2.
         js_bind (get fr2 (js ''name'')) (\<lambda>n.
         js_bind (get item (js ''function_response'')) (\<lambda>fr3.
         js_bind (get fr3 (js ''content'')) (\<lambda>c.
         js_return [FunctionResponsePart i n c]))))))
       else js_return [])"

text \<open>
  The body of the loop over \<^verbatim>\<open>toolCalls\<close>: the \<^verbatim>\<open>try\<close> pushes the function call, the
  \<^verbatim>\<open>catch\<close> logs and pushes one with the empty object for its arguments.
\<close>

definition toolCallParts :: "builtins \<Rightarrow> jsv \<Rightarrow> ResponsePart list comp" where
  "toolCallParts B toolCall =
     js_try
       (js_bind (get toolCall (js ''id'')) (\<lambda>i.
        js_bind (get toolCall (js ''function'')) (\<lambda>f1.
        js_bind (get f1 (js ''name'')) (\<lambda>n.
        js_bind (get toolCall (js ''function'')) (\<lambda>f2.
        js_bind (get f2 (js ''arguments'')) (\<lambda>a.
        js_bind (JSON_parse B a) (\<lambda>args.
        js_return [FunctionCallPart i n args])))))))
       (\<lambda>error.
        js_bind (emit (ConsoleError ''Error parsing tool call arguments:'' error)) (\<lambda>_.
        js_bind (get toolCall (js ''id'')) (\<lambda>i.
        js_bind (get toolCall (js ''function'')) (\<lambda>f.
        js_bind (get f (js ''name'')) (\<lambda>n.
        js_return [FunctionCallPart i n (JObj [])])))))"

definition convertZhipuResponseToParts ::
  "builtins \<Rightarrow> jsv \<Rightarrow> jsv \<Rightarrow> ResponsePart list comp" where
  "convertZhipuResponseToParts B content toolCalls =
     js_bind
       (if truthy content then
          (case content of
             JStr s \<Rightarrow> js_return [TextPart content]
           | JArr items \<Rightarrow> js_concat_mapM (contentItemParts B) items
           | _ \<Rightarrow> js_return [])
        else js_return [])
       (\<lambda>parts1.
     js_bind (has_elements B toolCalls) (\<lambda>some.
     js_bind
       (if some then js_bind (js_iterate toolCalls) (js_concat_mapM (toolCallParts B))
        else js_return [])
       (\<lambda>parts2. js_return (parts1 @ parts2))))"

definition convertZhipuContentToParts :: "builtins \<Rightarrow> jsv \<Rightarrow> ResponsePart list comp" where
  "convertZhipuContentToParts B content = convertZhipuResponseToParts B content JUndefined"

subsection \<open>Building a response\<close>

text \<open>
  The candidate that \<^verbatim>\<open>generateContent\<close> and the end-of-stream flush build from a choice,
  and the one the streaming loop builds.
\<close>

definition messageCandidate :: "builtins \<Rightarrow> jsv \<Rightarrow> jsv \<Rightarrow> Candidate comp" where
  "messageCandidate B zhipuResponse choice =
     js_bind (get choice (js ''index'')) (\<lambda>i.
     js_bind (get choice (js ''message'')) (\<lambda>message.
     js_bind (get_opt message (js ''content'')) (\<lambda>content.
     js_bind (get zhipuResponse (js ''tool_calls'')) (\<lambda>tool_calls.
     js_bind (convertZhipuResponseToParts B content tool_calls) (\<lambda>ps.
     js_bind (get choice (js ''finish_reason'')) (\<lambda>reason.
     js_return \<lparr>c_index = i, c_role = js ''model'', c_parts = ps,
                c_finishReason = mapZhipuFinishReason reason\<rparr>))))))"

definition deltaCandidate :: "builtins \<Rightarrow> jsv \<Rightarrow> Candidate comp" where
  "deltaCandidate B choice =
     js_bind (get choice (js ''delta'')) (\<lambda>delta.
     js_bind (get choice (js ''index'')) (\<lambda>i.
     js_bind (get_opt delta (js ''content'')) (\<lambda>content.
     js_bind (convertZhipuContentToParts B content) (\<lambda>ps.
     js_bind (get choice (js ''finish_reason'')) (\<lambda>reason.
     js_return \<lparr>c_index = i, c_role = js ''model'', c_parts = ps,
                c_finishReason = mapZhipuFinishReason reason\<rparr>)))))"

text \<open>\<^verbatim>\<open>if (zhipuResponse.usage) { generateContentResponse.usageMetadata = ... }\<close>.\<close>

definition usageOf :: "jsv \<Rightarrow> UsageMetadata option comp" where
  "usageOf zhipuResponse =
     js_bind (get zhipuResponse (js ''usage'')) (\<lambda>usage.
       if truthy usage then
         js_bind (get usage (js ''prompt_tokens'')) (\<lambda>p.
         js_bind (get usage (js ''completion_tokens'')) (\<lambda>c.
         js_bind (get usage (js ''total_tokens'')) (\<lambda>t.
         js_return (Some \<lparr>promptTokenCount = p, candidatesTokenCount = c,
                          totalTokenCount = t\<rparr>))))
       else js_return None)"

text \<open>
  The debugging output about \<^verbatim>\<open>tool_calls\<close>; \<open>received\<close> and \<open>each\<close> are the two
  templates, \<open>none\<close> the message of the \<^verbatim>\<open>else\<close> branch when there is one.
\<close>

definition logToolCalls :: "builtins \<Rightarrow> string \<Rightarrow> string \<Rightarrow> string option \<Rightarrow> jsv \<Rightarrow> unit comp" where
  "logToolCalls B received each none zhipuResponse =
     js_bind (get zhipuResponse (js ''tool_calls'')) (\<lambda>tool_calls.
     js_bind (has_elements B tool_calls) (\<lambda>some.
       if some then
         js_bind (emit (ConsoleLog received [js_length tool_calls])) (\<lambda>_.
         js_forEach tool_calls (\<lambda>toolCall index.
           js_bind (get toolCall (js ''function'')) (\<lambda>f.
           js_bind (get f (js ''name'')) (\<lambda>n.
           emit (ConsoleLog each [JNum (Finite (of_nat (index + 1))), n])))))
       else (case none of Some msg \<Rightarrow> emit (ConsoleLog msg []) | None \<Rightarrow> js_return ())))"

subsection \<open>\<^verbatim>\<open>generateContent\<close>\<close>

text \<open>
  The request. \<open>rq_config\<close> is \<^verbatim>\<open>request.config\<close> (\<open>JUndefined\<close> when missing), which
  \<^verbatim>\<open>extractToolsFromRequest\<close> reads as \<^verbatim>\<open>any\<close>. \<open>zhipuRequest\<close> is the object that
  \<^verbatim>\<open>generateContent\<close> (not streaming) and \<^verbatim>\<open>generateContentStream\<close> (streaming) build and
  post. The console output about the request and the telemetry events are left out of the
  model.
\<close>

record GenerateContentParameters =
  contents :: ContentListUnion
  rq_config :: jsv

record ZhipuTool =
  t_name :: jsv
  t_description :: jsv
  t_parameters :: jsv

record ZhipuRequest =
  z_model :: jsstring
  z_messages :: "ZhipuMessage list"
  z_stream :: bool
  z_tools :: "ZhipuTool list option"

definition extractToolsFromRequest :: "jsv \<Rightarrow> ZhipuTool list option comp" where
  "extractToolsFromRequest config =
     (if \<not> truthy config then js_return None
      else
        js_bind (get config (js ''tools'')) (\<lambda>tools.
          if \<not> truthy tools then js_return None
          else
            js_bind (get tools (js ''functionDeclarations'')) (\<lambda>decls.
              (case decls of
                 JArr ds \<Rightarrow>
                   js_bind
                     (js_mapM (\<lambda>funcDecl.
                        js_bind (get funcDecl (js ''name'')) (\<lambda>n.
                        js_bind (get funcDecl (js ''description'')) (\<lambda>d.
                        js_bind (get funcDecl (js ''parameters'')) (\<lambda>ps.
                        js_return \<lparr>t_name = n,
                                   t_description = (if truthy d then d else JStr []),
                                   t_parameters = (if truthy ps then ps else JObj [])\<rparr>)))) ds)
                     (\<lambda>zhipuTools. js_return (Some zhipuTools))
               | _ \<Rightarrow> js_return None))))"

definition zhipuRequest ::
  "(jsv \<Rightarrow> jsstring option) \<Rightarrow> jsstring \<Rightarrow> bool \<Rightarrow> GenerateContentParameters \<Rightarrow> ZhipuRequest comp" where
  "zhipuRequest stringify model streaming request =
     js_bind (extractToolsFromRequest (rq_config request)) (\<lambda>tools.
     js_return \<lparr>z_model = model,
                z_messages = convertToZhipuFormat stringify (contents request),
                z_stream = streaming,
                z_tools = tools\<rparr>)"

text \<open>
  What \<^verbatim>\<open>fetch\<close> and \<^verbatim>\<open>response.json()\<close> give for a request: a rejection, a status that
  is not ok, a body that is not JSON, or the parsed body.
\<close>

datatype fetch_result = FetchRejected | ResponseNotOk | BodyNotJson | JsonBody jsv

definition buildResponse :: "builtins \<Rightarrow> jsv \<Rightarrow> GenerateContentResponse comp" where
  "buildResponse B zhipuResponse =
     js_bind (logToolCalls B
        ''ZHIPU: Received ${zhipuResponse.tool_calls.length} tool calls from API''
        ''ZHIPU: Tool call ${index + 1}: ${toolCall.function.name}''
        (Some ''ZHIPU: No tool calls received from API'') zhipuResponse) (\<lambda>_.
     js_bind (get zhipuResponse (js ''id'')) (\<lambda>rid.
     js_bind (get zhipuResponse (js ''model'')) (\<lambda>mv.
     js_bind (get zhipuResponse (js ''choices'')) (\<lambda>choices.
     js_bind (js_map choices (messageCandidate B zhipuResponse)) (\<lambda>cs.
     js_bind (usageOf zhipuResponse) (\<lambda>um.
     js_return \<lparr>responseId = rid, modelVersion = mv, candidates = cs,
                usageMetadata = um\<rparr>))))))"

definition generateContent ::
  "builtins \<Rightarrow> (jsv \<Rightarrow> jsstring option) \<Rightarrow> (ZhipuRequest \<Rightarrow> fetch_result) \<Rightarrow> jsstring \<Rightarrow>
     GenerateContentParameters \<Rightarrow> GenerateContentResponse comp" where
  "generateContent B stringify fetch model request =
     js_try
       (js_bind (zhipuRequest stringify model False request) (\<lambda>rq.
          (case fetch rq of
             FetchRejected \<Rightarrow> js_throw FetchFailed
           | ResponseNotOk \<Rightarrow> js_throw HttpStatusError
           | BodyNotJson \<Rightarrow> js_throw SyntaxError
           | JsonBody zhipuResponse \<Rightarrow> buildResponse B zhipuResponse)))
       (\<lambda>error. js_throw (ZhipuApiError error))"

subsection \<open>The stream generator of \<^verbatim>\<open>generateContentStream\<close>\<close>

text \<open>\<^verbatim>\<open>buffer.split('\n')\<close>: the pieces between the line feeds, never an empty array.\<close>

fun split_nl :: "jsstring \<Rightarrow> jsstring list" where
  "split_nl [] = [[]]"
| "split_nl (c # cs) =
     (if c = 0xA then [] # split_nl cs
      else (c # hd (split_nl cs)) # tl (split_nl cs))"

text \<open>The \<^verbatim>\<open>try\<close> block of the loop body, after \<^verbatim>\<open>JSON.parse\<close> and before \<^verbatim>\<open>yield\<close>.\<close>

definition streamResponse :: "builtins \<Rightarrow> jsv \<Rightarrow> GenerateContentResponse comp" where
  "streamResponse B zhipuResponse =
     js_bind (logToolCalls B
        ''ZHIPU: Streaming - Received ${zhipuResponse.tool_calls.length} tool calls from API''
        ''ZHIPU: Streaming - Tool call ${index + 1}: ${toolCall.function.name}''
        None zhipuResponse) (\<lambda>_.
     js_bind (get zhipuResponse (js ''id'')) (\<lambda>rid.
     js_bind (get zhipuResponse (js ''model'')) (\<lambda>mv.
     js_bind (get zhipuResponse (js ''choices'')) (\<lambda>choices.
     js_bind (js_map choices (deltaCandidate B)) (\<lambda>cs.
     js_bind (usageOf zhipuResponse) (\<lambda>um.
     js_return \<lparr>responseId = rid, modelVersion = mv, candidates = cs,
                usageMetadata = um\<rparr>))))))"

text \<open>The body of \<^verbatim>\<open>for (const line of lines)\<close>.\<close>

definition processLine :: "builtins \<Rightarrow> jsstring \<Rightarrow> unit comp" where
  "processLine B line =
     (if startsWith line (js ''data: '') then
        (let data = slice_from line 6 in
         if data = js ''[DONE]'' then js_return ()
         else
           js_try
             (js_bind (JSON_parse B (JStr data)) (\<lambda>zhipuResponse.
              js_bind (streamResponse B zhipuResponse) (\<lambda>generateContentResponse.
              emit (Yield generateContentResponse))))
             (\<lambda>parseError.
              emit (ConsoleError ''Error parsing Zhipu streaming response:'' parseError)))
      else js_return ())"

text \<open>\<^verbatim>\<open>// Process any remaining buffer\<close>: what follows the \<^verbatim>\<open>while\<close> loop.\<close>

definition finalResponse :: "builtins \<Rightarrow> jsv \<Rightarrow> GenerateContentResponse comp" where
  "finalResponse B zhipuResponse =
     js_bind (get zhipuResponse (js ''id'')) (\<lambda>rid.
     js_bind (get zhipuResponse (js ''model'')) (\<lambda>mv.
     js_bind (get zhipuResponse (js ''choices'')) (\<lambda>choices.
     js_bind (js_map choices (messageCandidate B zhipuResponse)) (\<lambda>cs.
     js_return \<lparr>responseId = rid, modelVersion = mv, candidates = cs,
                usageMetadata = None\<rparr>))))"

definition flushBuffer :: "builtins \<Rightarrow> jsstring \<Rightarrow> unit comp" where
  "flushBuffer B buffer =
     (if trim buffer \<noteq> [] then
        js_try
          (js_bind (JSON_parse B (JStr (trim buffer))) (\<lambda>zhipuResponse.
           js_bind (finalResponse B zhipuResponse) (\<lambda>generateContentResponse.
           emit (Yield generateContentResponse))))
          (\<lambda>parseError. emit (ConsoleError ''Error parsing final Zhipu response:'' parseError))
      else js_return ())"

text \<open>
  The \<^verbatim>\<open>while (true)\<close> loop over the reads of the body. The list holds the decoded text
  of each chunk that \<^verbatim>\<open>reader.read()\<close> returns before it reports \<^verbatim>\<open>done\<close>; the first
  argument is \<^verbatim>\<open>buffer\<close>. Then the generator: the loop started on the empty buffer, and
  \<^verbatim>\<open>reader.releaseLock()\<close> in the \<^verbatim>\<open>finally\<close>.
\<close>

fun streamLoop :: "builtins \<Rightarrow> jsstring \<Rightarrow> jsstring list \<Rightarrow> unit comp" where
  "streamLoop B buffer [] = flushBuffer B buffer"
| "streamLoop B buffer (chunk # rest) =
     (let lines = split_nl (buffer @ chunk) in
      js_bind (js_for_each (processLine B) (butlast lines)) (\<lambda>_.
      streamLoop B (last lines) rest))"

definition streamGenerator :: "builtins \<Rightarrow> jsstring list \<Rightarrow> unit comp" where
  "streamGenerator B chunks = js_finally (streamLoop B [] chunks) ReleaseLock"

text \<open>
  \<^verbatim>\<open>generateContentStream\<close>, with the generator it returns run to its end. What \<^verbatim>\<open>fetch\<close>
  gives for the request is a rejection, a status that is not ok, a response without a
  body, or the chunks of the body.
\<close>

datatype stream_result = StreamRejected | StreamNotOk | StreamBodyNull | StreamBody "jsstring list"

definition generateContentStream ::
  "builtins \<Rightarrow> (jsv \<Rightarrow> jsstring option) \<Rightarrow> (ZhipuRequest \<Rightarrow> stream_result) \<Rightarrow> jsstring \<Rightarrow>
     GenerateContentParameters \<Rightarrow> unit comp" where
  "generateContentStream B stringify fetch model request =
     js_bind
       (js_try
          (js_bind (zhipuRequest stringify model True request) (\<lambda>rq.
             (case fetch rq of
                StreamRejected \<Rightarrow> js_throw FetchFailed
              | StreamNotOk \<Rightarrow> js_throw HttpStatusError
              | StreamBodyNull \<Rightarrow> js_throw BodyIsNull
              | StreamBody chunks \<Rightarrow> js_return chunks)))
          (\<lambda>error. js_throw (ZhipuStreamingError error)))
       (streamGenerator B)"

section \<open>Notions the properties are stated with\<close>

subsection \<open>The auth panel\<close>



subsection \<open>The request\<close>

text \<open>
  The kind of a part. A part counts once, by the first of these that applies: a string and
  a part with text that is not empty are text, whatever else the part holds; a part
  without such text that holds a function call is a function call; a part with neither
  that holds a function response is a function response; any other part is of no kind.
\<close>

datatype part_kind = IsText jsstring | IsCall FunctionCall | IsResponse FunctionResponse | IsOther

definition kindOf :: "PartUnion \<Rightarrow> part_kind" where
  "kindOf part =
     (case part of
        PartString s \<Rightarrow> IsText s
      | PartObject p \<Rightarrow>
          if part_text p \<noteq> None \<and> part_text p \<noteq> Some [] then IsText (the (part_text p))
          else if functionCall p \<noteq> None then IsCall (the (functionCall p))
          else if functionResponse p \<noteq> None then IsResponse (the (functionResponse p))
          else IsOther)"

definition textOf :: "PartUnion \<Rightarrow> jsstring option" where
  "textOf part = (case kindOf part of IsText t \<Rightarrow> Some t | _ \<Rightarrow> None)"

definition callOf :: "PartUnion \<Rightarrow> FunctionCall option" where
  "callOf part = (case kindOf part of IsCall fc \<Rightarrow> Some fc | _ \<Rightarrow> None)"

definition responseOf :: "PartUnion \<Rightarrow> FunctionResponse option" where
  "responseOf part = (case kindOf part of IsResponse fr \<Rightarrow> Some fr | _ \<Rightarrow> None)"

text \<open>
  The messages of a content described by kind: the texts joined into one message, then
  the function calls in one message, then the function responses in one message, each
  kind in the order of its parts and each message only when there is a part of its kind.
  The messages of an element of \<^verbatim>\<open>contents\<close>: a string is one text message of the user;
  an object with a role and parts gives the messages of its parts; any other object gives
  none.
\<close>

definition groupedMessages ::
  "(jsv \<Rightarrow> jsstring option) \<Rightarrow> jsstring option \<Rightarrow> PartUnion list \<Rightarrow> ZhipuMessage list" where
  "groupedMessages stringify r ps =
     (if List.map_filter textOf ps = [] then []
      else [\<lparr>m_role = mapRole r, m_content = ContentText (concat (List.map_filter textOf ps))\<rparr>]) @
     (if List.map_filter callOf ps = [] then []
      else [\<lparr>m_role = mapRole r,
              m_content = ContentItems (map (functionCallItem stringify) (List.map_filter callOf ps))\<rparr>]) @
     (if List.map_filter responseOf ps = [] then []
      else [\<lparr>m_role = mapRole r,
              m_content =
                ContentItems (map (functionResponseItem stringify) (List.map_filter responseOf ps))\<rparr>])"

definition contentMessages :: "(jsv \<Rightarrow> jsstring option) \<Rightarrow> ContentUnion \<Rightarrow> ZhipuMessage list" where
  "contentMessages stringify content =
     (case content of
        ContentString s \<Rightarrow> [\<lparr>m_role = RoleUser, m_content = ContentText s\<rparr>]
      | ContentObject c \<Rightarrow>
          (case role c of
             Present r \<Rightarrow>
               (case parts c of
                  Present (Some ps) \<Rightarrow> groupedMessages stringify r ps
                | _ \<Rightarrow> [])
           | Absent \<Rightarrow> []))"












subsection \<open>The response and the stream\<close>

text \<open>
  \<open>field v k\<close> is \<^verbatim>\<open>v.k\<close> where that read does not throw, so \<open>deltaContent\<close> is
  \<^verbatim>\<open>choice.delta?.content\<close> and \<open>messageContent\<close> is \<^verbatim>\<open>choice.message?.content\<close>.
\<close>

definition field :: "jsv \<Rightarrow> jsstring \<Rightarrow> jsv" where
  "field v k = (case v of JObj kvs \<Rightarrow> own kvs k | _ \<Rightarrow> JUndefined)"

definition deltaContent :: "jsv \<Rightarrow> jsv" where
  "deltaContent choice = field (field choice (js ''delta'')) (js ''content'')"

definition messageContent :: "jsv \<Rightarrow> jsv" where
  "messageContent choice = field (field choice (js ''message'')) (js ''content'')"

text \<open>The responses among the events, and a computation that yields none.\<close>

fun yields :: "event list \<Rightarrow> GenerateContentResponse list" where
  "yields [] = []"
| "yields (Yield r # es) = r # yields es"
| "yields (e # es) = yields es"

definition quiet :: "'a comp \<Rightarrow> bool" where
  "quiet m \<longleftrightarrow> yields (fst m) = []"

text \<open>
  The errors written with \<^verbatim>\<open>console.error\<close> among the events, each with the label it was
  written under, and a computation that writes none.
\<close>

fun logged_errors :: "event list \<Rightarrow> (string \<times> js_error) list" where
  "logged_errors [] = []"
| "logged_errors (ConsoleError label e # es) = (label, e) # logged_errors es"
| "logged_errors (ev # es) = logged_errors es"

definition silent :: "'a comp \<Rightarrow> bool" where
  "silent m \<longleftrightarrow> logged_errors (fst m) = []"

text \<open>
  The fragment of a complete line: the line carries the event prefix, its payload is not
  the sentinel, the payload parses, and the parsed value is built into a response without
  an exception. The fragment of the text left in the buffer at the end of the stream: the
  text is not blank, it parses once trimmed, and the parsed value is built into a
  response without an exception.
\<close>

definition fragmentOfLine :: "builtins \<Rightarrow> jsstring \<Rightarrow> GenerateContentResponse option" where
  "fragmentOfLine B line =
     (if startsWith line (js ''data: '') \<and> slice_from line 6 \<noteq> js ''[DONE]'' then
        (case json_parse B (JStr (slice_from line 6)) of
           Some zhipuResponse \<Rightarrow>
             (case snd (streamResponse B zhipuResponse) of Inr r \<Rightarrow> Some r | Inl e \<Rightarrow> None)
         | None \<Rightarrow> None)
      else None)"

text \<open>
  The error of a complete line: the line carries the event prefix, its payload is not the
  sentinel, and either the payload does not parse, which is the SyntaxError of
  \<^verbatim>\<open>JSON.parse\<close>, or building the response from the parsed value throws.
\<close>

definition errorOfLine :: "builtins \<Rightarrow> jsstring \<Rightarrow> js_error option" where
  "errorOfLine B line =
     (if startsWith line (js ''data: '') \<and> slice_from line 6 \<noteq> js ''[DONE]'' then
        (case json_parse B (JStr (slice_from line 6)) of
           Some zhipuResponse \<Rightarrow>
             (case snd (streamResponse B zhipuResponse) of Inr r \<Rightarrow> None | Inl e \<Rightarrow> Some e)
         | None \<Rightarrow> Some SyntaxError)
      else None)"

definition fragmentOfRemainder :: "builtins \<Rightarrow> jsstring \<Rightarrow> GenerateContentResponse option" where
  "fragmentOfRemainder B buffer =
     (if trim buffer \<noteq> [] then
        (case json_parse B (JStr (trim buffer)) of
           Some zhipuResponse \<Rightarrow>
             (case snd (finalResponse B zhipuResponse) of Inr r \<Rightarrow> Some r | Inl e \<Rightarrow> None)
         | None \<Rightarrow> None)
      else None)"

text \<open>
  A streamed payload of the usual shape: an object without \<^verbatim>\<open>tool_calls\<close> whose
  \<^verbatim>\<open>choices\<close> is an array of objects, none with an array for its delta content.
\<close>

definition plainChoice :: "jsv \<Rightarrow> bool" where
  "plainChoice choice =
     (case choice of
        JObj c \<Rightarrow> (case deltaContent choice of JArr items \<Rightarrow> False | _ \<Rightarrow> True)
      | _ \<Rightarrow> False)"

definition deltaChunk :: "jsv \<Rightarrow> bool" where
  "deltaChunk zhipuResponse =
     (case zhipuResponse of
        JObj kvs \<Rightarrow>
          \<not> truthy (own kvs (js ''tool_calls'')) \<and>
          (case own kvs (js ''choices'') of JArr cs \<Rightarrow> list_all plainChoice cs | _ \<Rightarrow> False)
      | _ \<Rightarrow> False)"

text \<open>The line feed that \<^verbatim>\<open>split('\n')\<close> splits at, and a body made of complete lines.\<close>

definition unlines :: "jsstring list \<Rightarrow> jsstring" where
  "unlines ls = concat (map (\<lambda>l. l @ [0xA]) ls)"

section \<open>Values of the examples\<close>

text \<open>
  \<^verbatim>\<open>JSON.stringify\<close> on the two values the examples pass to it: the empty object and
  \<^verbatim>\<open>undefined\<close>. No example applies it to another value.
\<close>

definition stringify_examples :: "jsv \<Rightarrow> jsstring option" where
  "stringify_examples v = (if v = JObj [] then Some (js ''{}'') else None)"

definition get_time_call :: PartUnion where
  "get_time_call =
     PartObject \<lparr>part_text = None,
       functionCall = Some \<lparr>fc_id = Some (js ''call_1''), fc_name = Some (js ''get_time''),
                             fc_args = JObj []\<rparr>,
       functionResponse = None\<rparr>"

definition get_time_response :: PartUnion where
  "get_time_response =
     PartObject \<lparr>part_text = None, functionCall = None,
       functionResponse = Some \<lparr>fr_id = Some (js ''call_1''), fr_name = Some (js ''get_time''),
                                 fr_response = JObj []\<rparr>\<rparr>"

definition text_part :: "jsstring \<Rightarrow> PartUnion" where
  "text_part t = PartObject \<lparr>part_text = Some t, functionCall = None, functionResponse = None\<rparr>"

text \<open>A part that holds the text \<^verbatim>\<open>hi\<close> and a function call as well.\<close>

definition text_with_call :: PartUnion where
  "text_with_call =
     PartObject \<lparr>part_text = Some (js ''hi''),
       functionCall = Some \<lparr>fc_id = Some (js ''call_1''), fc_name = Some (js ''get_time''),
                             fc_args = JObj []\<rparr>,
       functionResponse = None\<rparr>"

text \<open>
  A model turn whose function call comes before its text; a turn with all three kinds of
  part; the user turn \<^verbatim>\<open>{role: 'user', parts: [{text: 'hi'}]}\<close>; the same text in a
  content without a role; and a user turn whose only text is empty.
\<close>

definition call_then_text :: ContentUnion where
  "call_then_text =
     ContentObject \<lparr>role = Present (Some (js ''model'')),
                    parts = Present (Some [get_time_call, text_part (js ''hi'')])\<rparr>"

definition mixed_turn :: ContentUnion where
  "mixed_turn =
     ContentObject \<lparr>role = Present (Some (js ''model'')),
                    parts = Present (Some [get_time_response, text_part (js ''a''), get_time_call,
                                           text_part (js ''b'')])\<rparr>"

definition user_hi :: ContentUnion where
  "user_hi =
     ContentObject \<lparr>role = Present (Some (js ''user'')),
                    parts = Present (Some [text_part (js ''hi'')])\<rparr>"

definition hi_without_role :: ContentUnion where
  "hi_without_role =
     ContentObject \<lparr>role = Absent, parts = Present (Some [text_part (js ''hi'')])\<rparr>"




text \<open>
  A stand-in for the two built-in operations in the examples. On the JSON texts listed it
  returns the value that \<^verbatim>\<open>JSON.parse\<close> returns; it rejects every other argument, among
  them the malformed texts of the examples. \<open>greater_zero\<close> is given on numbers, booleans,
  \<^verbatim>\<open>null\<close> and \<^verbatim>\<open>undefined\<close>; no example consults it.
\<close>

definition payload_he :: jsstring where
  \<open>payload_he = js ''{"choices":[{"index":0,"delta":{"content":"he"}}]}''\<close>

definition payload_llo :: jsstring where
  \<open>payload_llo = js ''{"choices":[{"index":0,"delta":{"content":"llo"}}]}''\<close>

definition payload_final :: jsstring where
  \<open>payload_final =
     js ''{"choices":[{"index":0,"message":{"content":"hi"},"finish_reason":"stop"}],'' @
     js ''"tool_calls":[{"id":"call_1","type":"function",'' @
     js ''"function":{"name":"get_time","arguments":"{}"}}]}''\<close>

definition payload_error :: jsstring where
  \<open>payload_error = js ''{"error":{"code":"1302","message":"rate limit"}}''\<close>

definition error_value :: jsv where
  "error_value =
     JObj [(js ''error'',
            JObj [(js ''code'', JStr (js ''1302'')), (js ''message'', JStr (js ''rate limit''))])]"

definition delta_chunk :: "string \<Rightarrow> jsv" where
  "delta_chunk t =
     JObj [(js ''choices'',
            JArr [JObj [(js ''index'', JNum (Finite 0)),
                        (js ''delta'', JObj [(js ''content'', JStr (js t))])]])]"

definition get_time_tool_call :: "jsv \<Rightarrow> jsv" where
  "get_time_tool_call arguments =
     JObj [(js ''id'', JStr (js ''call_1'')), (js ''type'', JStr (js ''function'')),
           (js ''function'',
            JObj [(js ''name'', JStr (js ''get_time'')), (js ''arguments'', arguments)])]"

definition final_value :: jsv where
  "final_value =
     JObj [(js ''choices'',
            JArr [JObj [(js ''index'', JNum (Finite 0)),
                        (js ''message'', JObj [(js ''content'', JStr (js ''hi''))]),
                        (js ''finish_reason'', JStr (js ''stop''))]]),
           (js ''tool_calls'', JArr [get_time_tool_call (JStr (js ''{}''))])]"

definition example_texts :: "(jsstring \<times> jsv) list" where
  "example_texts =
     [(payload_he, delta_chunk ''he''),
      (payload_llo, delta_chunk ''llo''),
      (payload_final, final_value),
      (payload_error, error_value),
      (js ''{}'', JObj [])]"

definition examples :: builtins where
  "examples =
     \<lparr>json_parse = (\<lambda>v. case v of JStr s \<Rightarrow> map_of example_texts s | _ \<Rightarrow> None),
      greater_zero =
        (\<lambda>v. case v of
           JNum (Finite r) \<Rightarrow> Inr (0 < r)
         | JNum (Infinity positive) \<Rightarrow> Inr positive
         | JBool b \<Rightarrow> Inr b
         | _ \<Rightarrow> Inr False)\<rparr>"

text \<open>
  The lines of a streamed body, and the body of the two-fragment scenario cut into two
  chunks in the middle of its first line, with the blank lines that separate events.
\<close>

definition data_line :: "jsstring \<Rightarrow> jsstring" where
  "data_line payload = js ''data: '' @ payload"

definition sentinel_line :: jsstring where
  "sentinel_line = js ''data: [DONE]''"

definition scenario_chunks :: "jsstring list" where
  \<open>scenario_chunks =
     [js ''data: {"choices":[{"index":0,"del'',
      js ''ta":{"content":"he"}}]}'' @ [0xA, 0xA] @ data_line payload_llo @ [0xA, 0xA] @
      sentinel_line @ [0xA]]\<close>

text \<open>
  The function-call item of a message content, and a vendor response with one choice of
  a given message content and with further properties.
\<close>

definition function_call_item :: "jsv \<Rightarrow> jsv" where
  "function_call_item arguments =
     JObj [(js ''type'', JStr (js ''function_call'')),
           (js ''function_call'',
            JObj [(js ''name'', JStr (js ''get_time'')), (js ''arguments'', arguments),
                  (js ''id'', JStr (js ''call_1''))])]"

definition response_with :: "jsv \<Rightarrow> (jsstring \<times> jsv) list \<Rightarrow> jsv" where
  "response_with content others =
     JObj ((js ''choices'',
            JArr [JObj [(js ''index'', JNum (Finite 0)),
                        (js ''message'',
                         JObj [(js ''role'', JStr (js ''assistant'')), (js ''content'', content)]),
                        (js ''finish_reason'', JStr (js ''stop''))]]) # others)"

text \<open>
  The fragment that carries the text \<open>t\<close> of a delta, and the response built from
  \<open>final_value\<close>: its text, then its tool call with the arguments parsed.
\<close>

definition text_fragment :: "string \<Rightarrow> GenerateContentResponse" where
  "text_fragment t =
     \<lparr>responseId = JUndefined, modelVersion = JUndefined,
      candidates =
        [\<lparr>c_index = JNum (Finite 0), c_role = js ''model'', c_parts = [TextPart (JStr (js t))],
           c_finishReason = FINISH_REASON_UNSPECIFIED\<rparr>],
      usageMetadata = None\<rparr>"

definition final_fragment :: GenerateContentResponse where
  "final_fragment =
     \<lparr>responseId = JUndefined, modelVersion = JUndefined,
      candidates =
        [\<lparr>c_index = JNum (Finite 0), c_role = js ''model'',
           c_parts = [TextPart (JStr (js ''hi'')),
                      FunctionCallPart (JStr (js ''call_1'')) (JStr (js ''get_time'')) (JObj [])],
           c_finishReason = STOP\<rparr>],
      usageMetadata = None\<rparr>"


text \<open>
  The vendor response of the \<^verbatim>\<open>hello\<close> scenario and the generic response built from it.
  Two servers that answer only a request without messages and reject every other one:
  the first with that response, the second with a streamed body of one line.
\<close>

definition hello_value :: jsv where
  "hello_value =
     JObj [(js ''choices'',
            JArr [JObj [(js ''index'', JNum (Finite 0)),
                        (js ''message'', JObj [(js ''content'', JStr (js ''hello''))]),
                        (js ''finish_reason'', JStr (js ''stop''))]])]"

definition hello_response :: GenerateContentResponse where
  "hello_response =
     \<lparr>responseId = JUndefined, modelVersion = JUndefined,
      candidates =
        [\<lparr>c_index = JNum (Finite 0), c_role = js ''model'',
           c_parts = [TextPart (JStr (js ''hello''))], c_finishReason = STOP\<rparr>],
      usageMetadata = None\<rparr>"

definition answers_no_messages :: "ZhipuRequest \<Rightarrow> fetch_result" where
  "answers_no_messages rq = (if z_messages rq = [] then JsonBody hello_value else FetchRejected)"

definition streams_no_messages :: "ZhipuRequest \<Rightarrow> stream_result" where
  "streams_no_messages rq =
     (if z_messages rq = [] then StreamBody [data_line payload_he @ [0xA]] else StreamRejected)"

section \<open>Properties\<close>

subsection \<open>Computations\<close>

lemma js_bind_return [simp]: "js_bind (js_return x) f = f x"
  by (simp add: js_bind_def js_return_def split: prod.splits)

lemma js_bind_throw [simp]: "js_bind (js_throw e) f = js_throw e"
  by (simp add: js_bind_def js_throw_def)

lemma js_bind_Inr: "js_bind (es, Inr x) f = (es @ fst (f x), snd (f x))"
  by (simp add: js_bind_def split: prod.splits)

lemma js_bind_Inl: "js_bind (es, Inl e) f = (es, Inl e)"
  by (simp add: js_bind_def)

lemma js_bind_assoc: "js_bind (js_bind m f) g = js_bind m (\<lambda>x. js_bind (f x) g)"
  by (cases m) (auto simp: js_bind_def split: sum.splits prod.splits)

lemma fst_js_bind:
  "fst (js_bind m f) = fst m @ (case snd m of Inr x \<Rightarrow> fst (f x) | Inl e \<Rightarrow> [])"
  by (cases m) (auto simp: js_bind_def split: sum.splits prod.splits)

lemma snd_js_bind:
  "snd (js_bind m f) = (case snd m of Inr x \<Rightarrow> snd (f x) | Inl e \<Rightarrow> Inl e)"
  by (cases m) (auto simp: js_bind_def split: sum.splits prod.splits)

lemma fst_js_try:
  "fst (js_try m h) = fst m @ (case snd m of Inr x \<Rightarrow> [] | Inl e \<Rightarrow> fst (h e))"
  by (cases m) (auto simp: js_try_def split: sum.splits prod.splits)

lemma snd_js_try:
  "snd (js_try m h) = (case snd m of Inr x \<Rightarrow> Inr x | Inl e \<Rightarrow> snd (h e))"
  by (cases m) (auto simp: js_try_def split: sum.splits prod.splits)

lemma js_try_return [simp]: "js_try (js_return x) h = js_return x"
  by (simp add: js_try_def js_return_def)

lemma js_try_throw [simp]: "js_try (js_throw e) h = h e"
  by (simp add: js_try_def js_throw_def split: prod.splits)

lemma js_try_Inr: "js_try (es, Inr x) h = (es, Inr x)"
  by (simp add: js_try_def)

lemma js_try_Inl: "js_try (es, Inl e) h = (es @ fst (h e), snd (h e))"
  by (simp add: js_try_def split: prod.splits)

lemmas comp_eval =
  js_return_def js_throw_def emit_def js_bind_Inl js_bind_Inr js_try_Inl js_try_Inr

lemma snd_emit [simp]: "snd (emit ev) = Inr ()"
  by (simp add: emit_def)

lemma fst_emit [simp]: "fst (emit ev) = [ev]"
  by (simp add: emit_def)

lemma snd_JSON_parse:
  "snd (JSON_parse B v) = (case json_parse B v of Some x \<Rightarrow> Inr x | None \<Rightarrow> Inl SyntaxError)"
  by (simp add: JSON_parse_def js_return_def js_throw_def split: option.splits)

lemma fst_JSON_parse [simp]: "fst (JSON_parse B v) = []"
  by (simp add: JSON_parse_def js_return_def js_throw_def split: option.splits)

lemma js_for_each_append:
  "js_for_each f (xs @ ys) = js_bind (js_for_each f xs) (\<lambda>_. js_for_each f ys)"
  by (induction xs) (simp_all add: js_bind_assoc)

lemma js_for_each_total:
  "(\<And>x. snd (f x) = Inr ()) \<Longrightarrow> js_for_each f xs = (concat (map (\<lambda>x. fst (f x)) xs), Inr ())"
proof (induction xs)
  case Nil
  show ?case by (simp add: js_return_def)
next
  case (Cons x xs)
  have "js_bind (f x) g = (fst (f x) @ fst (g ()), snd (g ()))" for g :: "unit \<Rightarrow> unit comp"
    using Cons.prems [of x] by (cases "f x") (simp add: js_bind_Inr)
  then show ?case
    using Cons by simp
qed

subsection \<open>Lists\<close>

lemma map_filter_Nil [simp]: "List.map_filter f [] = []"
  by (simp add: List.map_filter_def)

lemma map_filter_Cons:
  "List.map_filter f (x # xs) =
     (case f x of Some y \<Rightarrow> y # List.map_filter f xs | None \<Rightarrow> List.map_filter f xs)"
  by (simp add: List.map_filter_def split: option.splits)

lemma map_filter_append [simp]:
  "List.map_filter f (xs @ ys) = List.map_filter f xs @ List.map_filter f ys"
  by (simp add: List.map_filter_def)

lemma map_filter_concat:
  "concat (map (\<lambda>x. case f x of Some r \<Rightarrow> [r] | None \<Rightarrow> []) xs) = List.map_filter f xs"
  by (induction xs) (auto simp: map_filter_Cons split: option.splits)

subsection \<open>Splitting at line feeds\<close>

lemma split_nl_not_Nil [simp]: "split_nl s \<noteq> []"
  by (induction s) auto

lemma split_nl_no_newline: "0xA \<notin> set l \<Longrightarrow> split_nl l = [l]"
  by (induction l) auto

lemma split_nl_append:
  "split_nl (a @ b) = butlast (split_nl a) @ (last (split_nl a) @ hd (split_nl b)) # tl (split_nl b)"
proof (induction a)
  case Nil
  then show ?case by (cases "split_nl b") auto
next
  case (Cons c a)
  show ?case
  proof (cases "c = 0xA")
    case True
    then show ?thesis using Cons by simp
  next
    case False
    then show ?thesis using Cons
      by (cases "split_nl a") (auto simp: butlast_append split: if_splits)
  qed
qed

lemma split_nl_segments: "l \<in> set (split_nl s) \<Longrightarrow> 0xA \<notin> set l"
proof (induction s arbitrary: l)
  case Nil
  then show ?case by simp
next
  case (Cons c s)
  then show ?case
    by (cases "split_nl s") (auto split: if_splits)
qed

lemma split_nl_carry: "split_nl (a @ b) = butlast (split_nl a) @ split_nl (last (split_nl a) @ b)"
proof -
  have "0xA \<notin> set (last (split_nl a))"
    by (rule split_nl_segments [of _ a]) simp
  then have "split_nl (last (split_nl a)) = [last (split_nl a)]"
    by (rule split_nl_no_newline)
  then have "split_nl (last (split_nl a) @ b) = (last (split_nl a) @ hd (split_nl b)) # tl (split_nl b)"
    by (simp add: split_nl_append [of "last (split_nl a)" b])
  then show ?thesis
    by (simp add: split_nl_append [of a b])
qed

lemma split_nl_line: "0xA \<notin> set l \<Longrightarrow> split_nl (l @ 0xA # r) = l # split_nl r"
  by (induction l) auto

lemma split_nl_unlines:
  "\<forall>l \<in> set ls. 0xA \<notin> set l \<Longrightarrow> split_nl (unlines ls @ r) = ls @ split_nl r"
  by (induction ls) (simp_all add: unlines_def split_nl_line)

lemma streamLoop_lines:
  "0xA \<notin> set buffer \<Longrightarrow>
   streamLoop B buffer chunks =
     js_bind (js_for_each (processLine B) (butlast (split_nl (buffer @ concat chunks))))
       (\<lambda>_. flushBuffer B (last (split_nl (buffer @ concat chunks))))"
proof (induction chunks arbitrary: buffer)
  case Nil
  then show ?case by (simp add: split_nl_no_newline)
next
  case (Cons chunk rest)
  have "0xA \<notin> set (last (split_nl (buffer @ chunk)))"
    by (rule split_nl_segments [of _ "buffer @ chunk"]) simp
  then have "streamLoop B (last (split_nl (buffer @ chunk))) rest =
     js_bind (js_for_each (processLine B)
        (butlast (split_nl (last (split_nl (buffer @ chunk)) @ concat rest))))
       (\<lambda>_. flushBuffer B (last (split_nl (last (split_nl (buffer @ chunk)) @ concat rest))))"
    by (rule Cons.IH)
  then show ?case
    using split_nl_carry [of "buffer @ chunk" "concat rest"]
    by (simp add: Let_def js_for_each_append js_bind_assoc butlast_append)
qed

subsection \<open>Where responses are yielded\<close>

lemma yields_append [simp]: "yields (es @ fs) = yields es @ yields fs"
  by (induction es rule: yields.induct) auto

lemma yields_concat_map:
  "yields (concat (map g xs)) = concat (map (\<lambda>x. yields (g x)) xs)"
  by (induction xs) auto

lemma quiet_return [simp]: "quiet (js_return x)"
  by (simp add: quiet_def js_return_def)

lemma quiet_throw [simp]: "quiet (js_throw e)"
  by (simp add: quiet_def js_throw_def)

lemma quiet_log [simp]: "quiet (emit (ConsoleLog t vs))" "quiet (emit (ConsoleError l e))"
  by (simp_all add: quiet_def emit_def)

lemma quiet_bind: "quiet m \<Longrightarrow> (\<And>x. quiet (f x)) \<Longrightarrow> quiet (js_bind m f)"
  by (simp add: quiet_def fst_js_bind split: sum.splits)

lemma quiet_try: "quiet m \<Longrightarrow> (\<And>e. quiet (h e)) \<Longrightarrow> quiet (js_try m h)"
  by (simp add: quiet_def fst_js_try split: sum.splits)

lemma quiet_get [simp]: "quiet (get v k)"
  by (cases v) (simp_all add: get_def)

lemma quiet_get_opt [simp]: "quiet (get_opt v k)"
  by (cases v) (simp_all add: get_opt_def)

lemma quiet_JSON_parse [simp]: "quiet (JSON_parse B v)"
  by (simp add: quiet_def)

lemma quiet_has_elements [simp]: "quiet (has_elements B v)"
  by (cases v) (simp_all add: has_elements_def quiet_def js_return_def)

lemma quiet_iterate [simp]: "quiet (js_iterate v)"
  by (cases v) (simp_all add: js_iterate_def)

lemma quiet_concat_mapM: "(\<And>x. quiet (f x)) \<Longrightarrow> quiet (js_concat_mapM f xs)"
  by (induction xs) (auto intro!: quiet_bind)

lemma quiet_mapM: "(\<And>x. quiet (f x)) \<Longrightarrow> quiet (js_mapM f xs)"
  by (induction xs) (auto intro!: quiet_bind)

lemma quiet_forEach_from: "(\<And>x i. quiet (f x i)) \<Longrightarrow> quiet (forEach_from f i xs)"
  by (induction xs arbitrary: i) (auto intro!: quiet_bind)

lemma quiet_js_map: "(\<And>x. quiet (f x)) \<Longrightarrow> quiet (js_map v f)"
  by (cases v) (auto simp: js_map_def intro: quiet_mapM)

lemma quiet_js_forEach: "(\<And>x i. quiet (f x i)) \<Longrightarrow> quiet (js_forEach v f)"
  by (cases v) (auto simp: js_forEach_def intro: quiet_forEach_from)

lemma quiet_contentItemParts: "quiet (contentItemParts B item)"
  unfolding contentItemParts_def
  by (intro quiet_bind quiet_get) (auto intro!: quiet_bind)

lemma quiet_toolCallParts: "quiet (toolCallParts B toolCall)"
  unfolding toolCallParts_def
  by (intro quiet_try quiet_bind quiet_get quiet_JSON_parse quiet_return quiet_log)

lemma quiet_convertZhipuResponseToParts: "quiet (convertZhipuResponseToParts B content toolCalls)"
  unfolding convertZhipuResponseToParts_def
  by (auto intro!: quiet_bind quiet_concat_mapM quiet_contentItemParts quiet_toolCallParts
      split: jsv.splits)

lemma quiet_messageCandidate: "quiet (messageCandidate B zhipuResponse choice)"
  unfolding messageCandidate_def
  by (intro quiet_bind quiet_get quiet_get_opt quiet_convertZhipuResponseToParts quiet_return)

lemma quiet_deltaCandidate: "quiet (deltaCandidate B choice)"
  unfolding deltaCandidate_def convertZhipuContentToParts_def
  by (intro quiet_bind quiet_get quiet_get_opt quiet_convertZhipuResponseToParts quiet_return)

lemma quiet_usageOf: "quiet (usageOf zhipuResponse)"
  unfolding usageOf_def
  by (auto intro!: quiet_bind)

lemma quiet_logToolCalls: "quiet (logToolCalls B received each none zhipuResponse)"
  unfolding logToolCalls_def
  by (auto intro!: quiet_bind quiet_js_forEach split: option.splits)

lemma quiet_streamResponse: "quiet (streamResponse B zhipuResponse)"
  unfolding streamResponse_def
  by (intro quiet_bind quiet_get quiet_logToolCalls quiet_js_map quiet_deltaCandidate
      quiet_usageOf quiet_return)

lemma quiet_finalResponse: "quiet (finalResponse B zhipuResponse)"
  unfolding finalResponse_def
  by (intro quiet_bind quiet_get quiet_js_map quiet_messageCandidate quiet_return)

lemma Yield_in_yields: "Yield r \<in> set es \<longleftrightarrow> r \<in> set (yields es)"
  by (induction es rule: yields.induct) auto

subsection \<open>Where errors are logged\<close>

lemma logged_errors_append [simp]: "logged_errors (es @ fs) = logged_errors es @ logged_errors fs"
  by (induction es rule: logged_errors.induct) auto

lemma logged_errors_concat_map:
  "logged_errors (concat (map g xs)) = concat (map (\<lambda>x. logged_errors (g x)) xs)"
  by (induction xs) auto

lemma silent_return [simp]: "silent (js_return x)"
  by (simp add: silent_def js_return_def)

lemma silent_throw [simp]: "silent (js_throw e)"
  by (simp add: silent_def js_throw_def)

lemma silent_log [simp]: "silent (emit (ConsoleLog t vs))"
  by (simp add: silent_def emit_def)

lemma silent_bind: "silent m \<Longrightarrow> (\<And>x. silent (f x)) \<Longrightarrow> silent (js_bind m f)"
  by (simp add: silent_def fst_js_bind split: sum.splits)

lemma silent_get [simp]: "silent (get v k)"
  by (cases v) (simp_all add: get_def)

lemma silent_get_opt [simp]: "silent (get_opt v k)"
  by (cases v) (simp_all add: get_opt_def)

lemma silent_JSON_parse [simp]: "silent (JSON_parse B v)"
  by (simp add: silent_def)

lemma silent_has_elements [simp]: "silent (has_elements B v)"
  by (cases v) (simp_all add: has_elements_def silent_def js_return_def)

lemma silent_concat_mapM: "(\<And>x. silent (f x)) \<Longrightarrow> silent (js_concat_mapM f xs)"
  by (induction xs) (auto intro!: silent_bind)

lemma silent_mapM: "(\<And>x. silent (f x)) \<Longrightarrow> silent (js_mapM f xs)"
  by (induction xs) (auto intro!: silent_bind)

lemma silent_forEach_from: "(\<And>x i. silent (f x i)) \<Longrightarrow> silent (forEach_from f i xs)"
  by (induction xs arbitrary: i) (auto intro!: silent_bind)

lemma silent_js_map: "(\<And>x. silent (f x)) \<Longrightarrow> silent (js_map v f)"
  by (cases v) (auto simp: js_map_def intro: silent_mapM)

lemma silent_js_forEach: "(\<And>x i. silent (f x i)) \<Longrightarrow> silent (js_forEach v f)"
  by (cases v) (auto simp: js_forEach_def intro: silent_forEach_from)

lemma silent_contentItemParts: "silent (contentItemParts B item)"
  unfolding contentItemParts_def
  by (intro silent_bind silent_get) (auto intro!: silent_bind)

lemma silent_convertZhipuContentToParts: "silent (convertZhipuContentToParts B content)"
proof -
  have "silent
      (if truthy content then
         (case content of
            JStr s \<Rightarrow> js_return [TextPart content]
          | JArr items \<Rightarrow> js_concat_mapM (contentItemParts B) items
          | _ \<Rightarrow> js_return [])
       else js_return [])"
    by (auto intro!: silent_concat_mapM silent_contentItemParts split: jsv.splits)
  then show ?thesis
    by (simp add: convertZhipuContentToParts_def convertZhipuResponseToParts_def
        has_elements_def silent_bind)
qed

lemma silent_deltaCandidate: "silent (deltaCandidate B choice)"
  unfolding deltaCandidate_def
  by (intro silent_bind silent_get silent_get_opt silent_convertZhipuContentToParts silent_return)

lemma silent_usageOf: "silent (usageOf zhipuResponse)"
  unfolding usageOf_def
  by (auto intro!: silent_bind)

lemma silent_logToolCalls: "silent (logToolCalls B received each none zhipuResponse)"
  unfolding logToolCalls_def
  by (auto intro!: silent_bind silent_js_forEach split: option.splits)

lemma silent_streamResponse: "silent (streamResponse B zhipuResponse)"
  unfolding streamResponse_def
  by (intro silent_bind silent_get silent_logToolCalls silent_js_map silent_deltaCandidate
      silent_usageOf silent_return)

subsection \<open>The lines and the remainder of a stream\<close>

lemma snd_processLine: "snd (processLine B line) = Inr ()"
  by (simp add: processLine_def Let_def js_return_def snd_js_try snd_js_bind split: sum.splits)

lemma snd_flushBuffer: "snd (flushBuffer B buffer) = Inr ()"
  by (simp add: flushBuffer_def js_return_def snd_js_try snd_js_bind split: sum.splits)

lemma yields_processLine:
  "yields (fst (processLine B line)) =
     (case fragmentOfLine B line of Some r \<Rightarrow> [r] | None \<Rightarrow> [])"
  using quiet_streamResponse [of B]
  by (auto simp: processLine_def fragmentOfLine_def Let_def js_return_def fst_js_try fst_js_bind
      snd_js_bind snd_JSON_parse quiet_def split: sum.splits option.splits)

lemma logged_errors_processLine:
  "logged_errors (fst (processLine B line)) =
     (case errorOfLine B line of
        Some e \<Rightarrow> [(''Error parsing Zhipu streaming response:'', e)]
      | None \<Rightarrow> [])"
  using silent_streamResponse [of B]
  by (auto simp: processLine_def errorOfLine_def Let_def js_return_def fst_js_try fst_js_bind
      snd_js_bind snd_JSON_parse silent_def split: sum.splits option.splits)

lemma yields_flushBuffer:
  "yields (fst (flushBuffer B buffer)) =
     (case fragmentOfRemainder B buffer of Some r \<Rightarrow> [r] | None \<Rightarrow> [])"
  using quiet_finalResponse [of B]
  by (auto simp: flushBuffer_def fragmentOfRemainder_def js_return_def fst_js_try fst_js_bind
      snd_js_bind snd_JSON_parse quiet_def split: sum.splits option.splits)

lemma streamGenerator_events:
  "streamGenerator B chunks =
     (concat (map (\<lambda>l. fst (processLine B l)) (butlast (split_nl (concat chunks)))) @
        fst (flushBuffer B (last (split_nl (concat chunks)))) @ [ReleaseLock],
      Inr ())"
proof -
  have "streamLoop B [] chunks =
     js_bind (js_for_each (processLine B) (butlast (split_nl (concat chunks))))
       (\<lambda>_. flushBuffer B (last (split_nl (concat chunks))))"
    using streamLoop_lines [of "[]" B chunks] by simp
  moreover have "js_for_each (processLine B) ls =
      (concat (map (\<lambda>l. fst (processLine B l)) ls), Inr ())" for ls
    by (rule js_for_each_total) (rule snd_processLine)
  ultimately show ?thesis
    by (simp add: streamGenerator_def js_finally_def js_bind_Inr snd_flushBuffer
        split: prod.splits)
qed

lemma yields_streamGenerator:
  "yields (fst (streamGenerator B chunks)) =
     List.map_filter (fragmentOfLine B) (butlast (split_nl (concat chunks))) @
     (case fragmentOfRemainder B (last (split_nl (concat chunks))) of Some r \<Rightarrow> [r] | None \<Rightarrow> [])"
  by (simp add: streamGenerator_events yields_concat_map yields_processLine yields_flushBuffer
      map_filter_concat)

subsection \<open>The request\<close>

lemma collectParts_eq:
  "collectParts ps (fcs, frs, ts) =
     (fcs @ List.map_filter callOf ps, frs @ List.map_filter responseOf ps,
      ts @ List.map_filter textOf ps)"
proof (induction ps arbitrary: fcs frs ts)
  case Nil
  show ?case by simp
next
  case (Cons p ps)
  show ?case
  proof (cases p)
    case (PartString s)
    then show ?thesis
      by (simp add: Cons.IH textOf_def callOf_def responseOf_def kindOf_def map_filter_Cons)
  next
    case (PartObject q)
    then show ?thesis
      by (auto simp: Cons.IH textOf_def callOf_def responseOf_def kindOf_def map_filter_Cons
          split: option.splits)
  qed
qed

lemma convertContent_grouped:
  "convertContent stringify (ContentObject \<lparr>role = Present r, parts = Present ps\<rparr>) =
     groupedMessages stringify r (case ps of Some l \<Rightarrow> l | None \<Rightarrow> [])"
  by (simp add: convertContent_def collectParts_eq groupedMessages_def)

lemma groupedMessages_Nil [simp]: "groupedMessages stringify r [] = []"
  by (simp add: groupedMessages_def)

lemma convertContent_contentMessages:
  "convertContent stringify content = contentMessages stringify content"
proof (cases content)
  case (ContentString s)
  then show ?thesis
    by (simp add: convertContent_def contentMessages_def)
next
  case (ContentObject c)
  obtain r ps where c: "c = \<lparr>role = r, parts = ps\<rparr>"
    by (cases c) simp
  show ?thesis
  proof (cases r)
    case Absent
    then show ?thesis
      using ContentObject c by (simp add: convertContent_def contentMessages_def)
  next
    case (Present r')
    show ?thesis
    proof (cases ps)
      case Absent
      then show ?thesis
        using ContentObject c Present by (simp add: convertContent_def contentMessages_def)
    next
      case inner: (Present l)
      then show ?thesis
        using ContentObject c Present convertContent_grouped [of stringify r' l]
        by (cases l) (simp_all add: contentMessages_def)
    qed
  qed
qed

lemma js_Nil: "js [] = []"
  by (simp add: js_def)

lemma js_Cons: "js (c # cs) = of_char c # js cs"
  by (simp add: js_def)

lemmas js_literal = js_Nil js_Cons


subsection \<open>Reading objects\<close>

lemma get_JObj [simp]: "get (JObj kvs) k = js_return (own kvs k)"
  by (simp add: get_def)

lemma own_Cons [simp]: "own ((k', v) # kvs) k = (if k = k' then v else own kvs k)"
  by (simp add: own_def)

lemma own_Nil [simp]: "own [] k = JUndefined"
  by (simp add: own_def)

lemma has_elements_simps [simp]:
  "has_elements B JUndefined = js_return False"
  "has_elements B JNull = js_return False"
  "has_elements B (JArr xs) = js_return (xs \<noteq> [])"
  "has_elements B (JStr s) = js_return (s \<noteq> [])"
  by (simp_all add: has_elements_def)

lemma get_field: "v \<noteq> JUndefined \<Longrightarrow> v \<noteq> JNull \<Longrightarrow> get v k = js_return (field v k)"
  by (cases v) (simp_all add: get_def field_def)

lemma get_opt_field: "get_opt v k = js_return (field v k)"
  by (cases v) (simp_all add: get_opt_def get_def field_def)

lemma fst_get [simp]: "fst (get v k) = []"
  by (cases v) (simp_all add: get_def js_return_def js_throw_def)

lemma snd_js_return [simp]: "snd (js_return x) = Inr x"
  by (simp add: js_return_def)

lemma fst_js_return [simp]: "fst (js_return x) = []"
  by (simp add: js_return_def)

lemma snd_js_throw [simp]: "snd (js_throw e) = Inl e"
  by (simp add: js_throw_def)

lemma fst_js_throw [simp]: "fst (js_throw e) = []"
  by (simp add: js_throw_def)

lemma snd_js_mapM:
  "snd (js_mapM f xs) = Inr ys \<Longrightarrow> list_all2 (\<lambda>x y. snd (f x) = Inr y) xs ys"
proof (induction xs arbitrary: ys)
  case Nil
  then show ?case by simp
next
  case (Cons x xs)
  then show ?case
    by (auto simp: snd_js_bind split: sum.splits)
qed

lemma js_mapM_total:
  "\<forall>x \<in> set xs. \<exists>y. f x = ([], Inr y) \<Longrightarrow> \<exists>ys. js_mapM f xs = ([], Inr ys)"
proof (induction xs)
  case Nil
  show ?case by (simp add: js_return_def)
next
  case (Cons x xs)
  then obtain y ys where "f x = ([], Inr y)" and "js_mapM f xs = ([], Inr ys)"
    by auto
  then show ?case
    by (simp add: comp_eval)
qed

subsection \<open>Candidates and responses\<close>

lemma deltaCandidate_value:
  assumes "choice \<noteq> JUndefined" and "choice \<noteq> JNull"
  shows "deltaCandidate B choice =
     js_bind (convertZhipuResponseToParts B (deltaContent choice) JUndefined) (\<lambda>ps.
       js_return \<lparr>c_index = field choice (js ''index''), c_role = js ''model'', c_parts = ps,
         c_finishReason = mapZhipuFinishReason (field choice (js ''finish_reason''))\<rparr>)"
  using assms
  by (simp add: deltaCandidate_def get_field get_opt_field deltaContent_def
      convertZhipuContentToParts_def)

lemma messageCandidate_value:
  assumes "choice \<noteq> JUndefined" and "choice \<noteq> JNull"
    and "zhipuResponse \<noteq> JUndefined" and "zhipuResponse \<noteq> JNull"
  shows "messageCandidate B zhipuResponse choice =
     js_bind (convertZhipuResponseToParts B (messageContent choice)
                (field zhipuResponse (js ''tool_calls''))) (\<lambda>ps.
       js_return \<lparr>c_index = field choice (js ''index''), c_role = js ''model'', c_parts = ps,
         c_finishReason = mapZhipuFinishReason (field choice (js ''finish_reason''))\<rparr>)"
  using assms
  by (simp add: messageCandidate_def get_field get_opt_field messageContent_def)

lemma snd_deltaCandidate:
  assumes "snd (deltaCandidate B choice) = Inr c"
  shows "snd (convertZhipuResponseToParts B (deltaContent choice) JUndefined) = Inr (c_parts c)"
proof -
  have "choice \<noteq> JUndefined \<and> choice \<noteq> JNull"
    using assms by (auto simp: deltaCandidate_def get_def)
  then show ?thesis
    using assms by (auto simp: deltaCandidate_value snd_js_bind split: sum.splits)
qed


subsection \<open>Lines that carry a payload\<close>

lemma length_js [simp]: "length (js s) = length s"
  by (simp add: js_def)

lemma js_eq_Nil [simp]: "js s = [] \<longleftrightarrow> s = []"
  by (simp add: js_def)

lemma startsWith_data_line: "startsWith (data_line p) (js ''data: '')"
  by (simp add: startsWith_def data_line_def)

lemma slice_from_data_line: "slice_from (data_line p) 6 = p"
  by (simp add: slice_from_def data_line_def)

lemma data_line_no_newline: "0xA \<notin> set (data_line p) \<longleftrightarrow> 0xA \<notin> set p"
  by (simp add: data_line_def js_literal)

lemma processLine_data_line:
  "p \<noteq> js ''[DONE]'' \<Longrightarrow>
   processLine B (data_line p) =
     js_try
       (js_bind (JSON_parse B (JStr p)) (\<lambda>zhipuResponse.
        js_bind (streamResponse B zhipuResponse) (\<lambda>generateContentResponse.
        emit (Yield generateContentResponse))))
       (\<lambda>parseError.
        emit (ConsoleError ''Error parsing Zhipu streaming response:'' parseError))"
  by (simp add: processLine_def startsWith_data_line slice_from_data_line)

lemma fragmentOfLine_data_line:
  "p \<noteq> js ''[DONE]'' \<Longrightarrow>
   fragmentOfLine B (data_line p) =
     (case json_parse B (JStr p) of
        Some zhipuResponse \<Rightarrow>
          (case snd (streamResponse B zhipuResponse) of Inr r \<Rightarrow> Some r | Inl e \<Rightarrow> None)
      | None \<Rightarrow> None)"
  by (simp add: fragmentOfLine_def startsWith_data_line slice_from_data_line)

lemma fragmentOfLine_blank: "fragmentOfLine B [] = None"
  by (simp add: fragmentOfLine_def startsWith_def js_literal)

lemma streamResponse_delta_chunk:
  "t \<noteq> [] \<Longrightarrow> streamResponse B (delta_chunk t) = ([], Inr (text_fragment t))"
  by (simp add: streamResponse_def delta_chunk_def logToolCalls_def js_map_def
      deltaCandidate_value deltaContent_def field_def convertZhipuResponseToParts_def usageOf_def
      text_fragment_def mapZhipuFinishReason_def js_literal comp_eval)

subsection \<open>The stand-in for \<^verbatim>\<open>JSON.parse\<close> on the texts of the examples\<close>

lemma payloads_differ:
  "payload_he \<noteq> payload_llo" "payload_he \<noteq> payload_final" "payload_llo \<noteq> payload_final"
  "payload_he \<noteq> payload_error" "payload_llo \<noteq> payload_error"
  "payload_final \<noteq> payload_error"
  "payload_he \<noteq> js ''{}''" "payload_llo \<noteq> js ''{}''" "payload_final \<noteq> js ''{}''"
  "payload_error \<noteq> js ''{}''"
  "payload_he \<noteq> js ''[DONE]''" "payload_llo \<noteq> js ''[DONE]''"
  "payload_final \<noteq> js ''[DONE]''" "payload_error \<noteq> js ''[DONE]''"
  by (simp_all add: payload_he_def payload_llo_def payload_final_def payload_error_def js_literal)

lemma parse_examples:
  "json_parse examples (JStr payload_he) = Some (delta_chunk ''he'')"
  "json_parse examples (JStr payload_llo) = Some (delta_chunk ''llo'')"
  "json_parse examples (JStr payload_final) = Some final_value"
  "json_parse examples (JStr payload_error) = Some error_value"
  "json_parse examples (JStr (js ''{}'')) = Some (JObj [])"
  using payloads_differ
  by (simp_all add: examples_def example_texts_def)

lemma parse_examples_braces: "json_parse examples (JStr [0x7B, 0x7D]) = Some (JObj [])"
  using parse_examples(5) by (simp add: js_literal)

lemma parse_examples_rejects:
  "json_parse examples (JStr (js ''{'')) = None"
  "json_parse examples (JStr (0x64 # s)) = None"
  by (simp_all add: examples_def example_texts_def payload_he_def payload_llo_def
      payload_final_def payload_error_def js_literal)
subsection \<open>The end of the stream\<close>

lemma flushBuffer_eq:
  "flushBuffer B buffer =
     (if trim buffer = [] then ([], Inr ())
      else
        (case json_parse B (JStr (trim buffer)) of
           None \<Rightarrow> ([ConsoleError ''Error parsing final Zhipu response:'' SyntaxError], Inr ())
         | Some zhipuResponse \<Rightarrow>
             (fst (finalResponse B zhipuResponse) @
                [case snd (finalResponse B zhipuResponse) of
                   Inr r \<Rightarrow> Yield r
                 | Inl e \<Rightarrow> ConsoleError ''Error parsing final Zhipu response:'' e],
              Inr ())))"
proof (cases "json_parse B (JStr (trim buffer))")
  case None
  then show ?thesis
    by (simp add: flushBuffer_def JSON_parse_def comp_eval)
next
  case (Some zhipuResponse)
  obtain es r where "finalResponse B zhipuResponse = (es, r)"
    by (cases "finalResponse B zhipuResponse")
  then show ?thesis
    using Some by (cases r) (simp_all add: flushBuffer_def JSON_parse_def comp_eval)
qed

lemma snd_streamResponse:
  assumes "snd (streamResponse B zhipuResponse) = Inr r"
  shows "\<exists>cs. field zhipuResponse (js ''choices'') = JArr cs \<and>
           list_all2 (\<lambda>choice c.
               snd (convertZhipuResponseToParts B (deltaContent choice) JUndefined) = Inr (c_parts c))
             cs (candidates r)"
proof -
  have nonnull: "zhipuResponse \<noteq> JUndefined \<and> zhipuResponse \<noteq> JNull"
    using assms by (auto simp: streamResponse_def logToolCalls_def get_def)
  obtain cands where cands: "snd (js_map (field zhipuResponse (js ''choices'')) (deltaCandidate B)) = Inr cands"
    and r: "candidates r = cands"
    using assms nonnull
    by (auto simp: streamResponse_def get_field snd_js_bind split: sum.splits)
  then obtain cs where cs: "field zhipuResponse (js ''choices'') = JArr cs"
    by (cases "field zhipuResponse (js ''choices'')") (simp_all add: js_map_def)
  with cands have "list_all2 (\<lambda>x y. snd (deltaCandidate B x) = Inr y) cs cands"
    by (simp add: js_map_def snd_js_mapM)
  then have "list_all2 (\<lambda>choice c.
      snd (convertZhipuResponseToParts B (deltaContent choice) JUndefined) = Inr (c_parts c)) cs cands"
    by (rule list_all2_mono) (rule snd_deltaCandidate)
  with cs r show ?thesis by simp
qed




lemma fragmentOfLine_Some:
  assumes "fragmentOfLine B line = Some r"
  shows "startsWith line (js ''data: '') \<and> slice_from line 6 \<noteq> js ''[DONE]'' \<and>
     (\<exists>zhipuResponse. json_parse B (JStr (slice_from line 6)) = Some zhipuResponse \<and>
        snd (streamResponse B zhipuResponse) = Inr r)"
  using assms
  by (auto simp: fragmentOfLine_def split: if_splits option.splits sum.splits)

lemma processLine_yielded:
  assumes "Yield r \<in> set (fst (processLine B line))"
  shows "fragmentOfLine B line = Some r"
proof -
  from assms have "r \<in> set (yields (fst (processLine B line)))"
    by (simp add: Yield_in_yields)
  then show ?thesis
    by (cases "fragmentOfLine B line") (simp_all add: yields_processLine)
qed

subsection \<open>Trimming\<close>

lemma dropWhile_snoc_stop: "\<not> P z \<Longrightarrow> dropWhile P (ys @ [z]) = dropWhile P ys @ [z]"
  by (induction ys) auto

lemma trim_Cons_stop: "\<not> is_js_space c \<Longrightarrow> trim (c # s) = c # rev (dropWhile is_js_space (rev s))"
  by (simp add: trim_def dropWhile_snoc_stop)

lemma trim_unchanged:
  "\<not> is_js_space c \<Longrightarrow> \<not> is_js_space d \<Longrightarrow> trim (c # s @ [d]) = c # s @ [d]"
  by (simp add: trim_Cons_stop)

lemma trim_blank: "\<forall>c \<in> set s. is_js_space c \<Longrightarrow> trim s = []"
  by (auto simp: trim_def dest: set_dropWhileD)

lemma not_space_letters:
  "\<not> is_js_space 0x64" "\<not> is_js_space 0x7B" "\<not> is_js_space 0x7D" "\<not> is_js_space 0x5D"
  by (simp_all add: is_js_space_def)


lemma trim_payload_final: "trim payload_final = payload_final"
proof -
  have "\<exists>s. payload_final = 0x7B # s @ [0x7D]"
    by (simp add: payload_final_def js_literal)
  then obtain s where "payload_final = 0x7B # s @ [0x7D]" ..
  then show ?thesis
    using trim_unchanged [of "0x7B" "0x7D" s] by (simp add: not_space_letters)
qed

lemma trim_payload_error: "trim payload_error = payload_error"
proof -
  have "\<exists>s. payload_error = 0x7B # s @ [0x7D]"
    by (simp add: payload_error_def js_literal)
  then obtain s where "payload_error = 0x7B # s @ [0x7D]" ..
  then show ?thesis
    using trim_unchanged [of "0x7B" "0x7D" s] by (simp add: not_space_letters)
qed

subsection \<open>The responses of the examples\<close>

lemma finalResponse_final_value: "finalResponse examples final_value = ([], Inr final_fragment)"
  by (simp add: finalResponse_def final_value_def js_map_def messageCandidate_value
      messageContent_def field_def convertZhipuResponseToParts_def js_iterate_def
      get_time_tool_call_def toolCallParts_def JSON_parse_def parse_examples_braces
      final_fragment_def mapZhipuFinishReason_def js_literal comp_eval)


lemma finalResponse_error_value: "finalResponse examples error_value = ([], Inl TypeError)"
  by (simp add: finalResponse_def error_value_def js_map_def js_literal comp_eval)

lemma streamResponse_error_value: "streamResponse examples error_value = ([], Inl TypeError)"
  by (simp add: streamResponse_def error_value_def logToolCalls_def js_map_def js_literal
      comp_eval)

text \<open>
  C6: \<^verbatim>\<open>mapZhipuFinishReason\<close> is defined on every string and throws on none: \<^verbatim>\<open>stop\<close>
  gives STOP, \<^verbatim>\<open>length\<close> gives MAX_TOKENS, \<^verbatim>\<open>content_filter\<close> gives SAFETY, and every
  other string gives the unspecified finish reason; so does every value that is no string,
  such as the \<^verbatim>\<open>null\<close> or missing \<^verbatim>\<open>finish_reason\<close> of a streamed delta.
\<close>

theorem mapZhipuFinishReason_total:
  "mapZhipuFinishReason (JStr s) =
     (if s = js ''stop'' then STOP
      else if s = js ''length'' then MAX_TOKENS
      else if s = js ''content_filter'' then SAFETY
      else FINISH_REASON_UNSPECIFIED) \<and>
   mapZhipuFinishReason JUndefined = FINISH_REASON_UNSPECIFIED \<and>
   mapZhipuFinishReason JNull = FINISH_REASON_UNSPECIFIED \<and>
   mapZhipuFinishReason (JBool b) = FINISH_REASON_UNSPECIFIED \<and>
   mapZhipuFinishReason (JNum n) = FINISH_REASON_UNSPECIFIED \<and>
   mapZhipuFinishReason (JArr xs) = FINISH_REASON_UNSPECIFIED \<and>
   mapZhipuFinishReason (JObj kvs) = FINISH_REASON_UNSPECIFIED"
  by (simp add: mapZhipuFinishReason_def)




lemma extractToolsFromRequest_undefined: "extractToolsFromRequest JUndefined = ([], Inr None)"
  by (simp add: extractToolsFromRequest_def js_return_def)

lemma buildResponse_hello_value:
  "buildResponse examples hello_value =
     ([ConsoleLog ''ZHIPU: No tool calls received from API'' []], Inr hello_response)"
  by (simp add: buildResponse_def hello_value_def hello_response_def logToolCalls_def js_map_def
      messageCandidate_value messageContent_def field_def convertZhipuResponseToParts_def
      usageOf_def mapZhipuFinishReason_def js_literal comp_eval)

lemma streamGenerator_one_line:
  "streamGenerator examples [data_line payload_he @ [0xA]] =
     ([Yield (text_fragment ''he''), ReleaseLock], Inr ())"
proof -
  have "0xA \<notin> set (data_line payload_he)"
    by (simp add: data_line_no_newline) (simp add: payload_he_def js_literal)
  then have "split_nl (data_line payload_he @ 0xA # []) = data_line payload_he # split_nl []"
    by (rule split_nl_line)
  then have lines: "split_nl (data_line payload_he @ [0xA]) = [data_line payload_he, []]"
    by simp
  have line: "processLine examples (data_line payload_he) = ([Yield (text_fragment ''he'')], Inr ())"
    by (simp add: processLine_data_line payloads_differ JSON_parse_def parse_examples
        streamResponse_delta_chunk comp_eval)
  have "flushBuffer examples [] = ([], Inr ())"
    by (simp add: flushBuffer_def trim_def comp_eval)
  then show ?thesis
    by (simp add: streamGenerator_events lines line)
qed

text \<open>
  C8: when \<^verbatim>\<open>request.contents\<close> is not an array, \<^verbatim>\<open>convertToZhipuFormat\<close> returns no message,
  so the request that \<^verbatim>\<open>generateContent\<close> and \<^verbatim>\<open>generateContentStream\<close> build has zero
  messages, and it is this request that each of them passes to \<^verbatim>\<open>fetch\<close>: what each does
  next is decided by the answer of \<^verbatim>\<open>fetch\<close> to the request with the model, no messages,
  its streaming flag and the tools of the configuration.
\<close>

theorem single_content_no_messages:
  "convertToZhipuFormat stringify (ContentSingle content) = [] \<and>
   zhipuRequest stringify model streaming \<lparr>contents = ContentSingle content, rq_config = config\<rparr> =
     js_bind (extractToolsFromRequest config) (\<lambda>tools.
       js_return \<lparr>z_model = model, z_messages = [], z_stream = streaming, z_tools = tools\<rparr>) \<and>
   generateContent B stringify fetch model \<lparr>contents = ContentSingle content, rq_config = config\<rparr> =
     js_try
       (js_bind (extractToolsFromRequest config) (\<lambda>tools.
          (case fetch \<lparr>z_model = model, z_messages = [], z_stream = False, z_tools = tools\<rparr> of
             FetchRejected \<Rightarrow> js_throw FetchFailed
           | ResponseNotOk \<Rightarrow> js_throw HttpStatusError
           | BodyNotJson \<Rightarrow> js_throw SyntaxError
           | JsonBody zhipuResponse \<Rightarrow> buildResponse B zhipuResponse)))
       (\<lambda>error. js_throw (ZhipuApiError error)) \<and>
   generateContentStream B stringify fetch' model
       \<lparr>contents = ContentSingle content, rq_config = config\<rparr> =
     js_bind
       (js_try
          (js_bind (extractToolsFromRequest config) (\<lambda>tools.
             (case fetch' \<lparr>z_model = model, z_messages = [], z_stream = True, z_tools = tools\<rparr> of
                StreamRejected \<Rightarrow> js_throw FetchFailed
              | StreamNotOk \<Rightarrow> js_throw HttpStatusError
              | StreamBodyNull \<Rightarrow> js_throw BodyIsNull
              | StreamBody chunks \<Rightarrow> js_return chunks)))
          (\<lambda>error. js_throw (ZhipuStreamingError error)))
       (streamGenerator B)"
  by (simp add: convertToZhipuFormat_def zhipuRequest_def generateContent_def
      generateContentStream_def js_bind_assoc)

theorem single_content_no_messages_witness:
  "zhipuRequest stringify_examples (js ''glm-4'') True
      \<lparr>contents = ContentSingle user_hi, rq_config = JUndefined\<rparr> =
     ([], Inr \<lparr>z_model = js ''glm-4'', z_messages = [], z_stream = True, z_tools = None\<rparr>) \<and>
   generateContent examples stringify_examples answers_no_messages (js ''glm-4'')
      \<lparr>contents = ContentSingle user_hi, rq_config = JUndefined\<rparr> =
     ([ConsoleLog ''ZHIPU: No tool calls received from API'' []], Inr hello_response) \<and>
   generateContentStream examples stringify_examples streams_no_messages (js ''glm-4'')
      \<lparr>contents = ContentSingle user_hi, rq_config = JUndefined\<rparr> =
     ([Yield (text_fragment ''he''), ReleaseLock], Inr ())"
  using single_content_no_messages [where stringify = stringify_examples and content = user_hi
      and model = "js ''glm-4''" and streaming = True and config = JUndefined and B = examples
      and fetch = answers_no_messages and fetch' = streams_no_messages]
  by (simp add: extractToolsFromRequest_undefined answers_no_messages_def
      streams_no_messages_def buildResponse_hello_value streamGenerator_one_line comp_eval)

text \<open>
  C2 (as amended): \<^verbatim>\<open>convertToZhipuFormat\<close> gives the messages of the elements of an array
  \<^verbatim>\<open>contents\<close> in the order of the elements, and no message when \<^verbatim>\<open>contents\<close> is not an
  array. A string element is one text message of the user, and an element without a role
  or without parts gives none. An element with a role and parts gives at most three
  messages, always in the order plain text, function calls, function responses, whatever
  the order of the parts, each with the mapped role of the element: the texts joined into
  one message, the function calls in one message, the function responses in one message,
  each kind in the order of its parts. A part counts once, as text when it is a string or
  has text that is not empty, otherwise as a function call when it holds one, otherwise as
  a function response when it holds one; so the function call of a part that also has
  text is dropped.
\<close>

theorem convertToZhipuFormat_grouped:
  "convertToZhipuFormat stringify (ContentArray cs) =
     concat (map (contentMessages stringify) cs) \<and>
   convertToZhipuFormat stringify (ContentSingle c) = [] \<and>
   convertToZhipuFormat stringify
      (ContentArray [ContentObject \<lparr>role = Present r, parts = Present (Some ps)\<rparr>]) =
     groupedMessages stringify r ps \<and>
   length (convertToZhipuFormat stringify
      (ContentArray [ContentObject \<lparr>role = Present r, parts = Present (Some ps)\<rparr>])) \<le> 3 \<and>
   (\<forall>m \<in> set (convertToZhipuFormat stringify
      (ContentArray [ContentObject \<lparr>role = Present r, parts = Present (Some ps)\<rparr>])).
      m_role m = mapRole r)"
proof -
  have "convertContent stringify = contentMessages stringify"
    by (rule ext) (rule convertContent_contentMessages)
  then show ?thesis
    by (simp add: convertToZhipuFormat_def contentMessages_def groupedMessages_def)
qed

theorem convertToZhipuFormat_grouped_witness:
  "convertToZhipuFormat stringify_examples
      (ContentArray [ContentString (js ''now?''), mixed_turn, hi_without_role]) =
     [\<lparr>m_role = RoleUser, m_content = ContentText (js ''now?'')\<rparr>,
      \<lparr>m_role = RoleAssistant, m_content = ContentText (js ''ab'')\<rparr>,
      \<lparr>m_role = RoleAssistant,
       m_content = ContentItems
         [FunctionCallItem (Some (js ''get_time'')) (Some (js ''{}'')) (Some (js ''call_1''))]\<rparr>,
      \<lparr>m_role = RoleAssistant,
       m_content = ContentItems
         [FunctionResponseItem (Some (js ''get_time'')) (Some (js ''{}''))
            (Some (js ''call_1''))]\<rparr>] \<and>
   convertToZhipuFormat stringify_examples (ContentSingle mixed_turn) = [] \<and>
   length (convertToZhipuFormat stringify_examples (ContentArray [mixed_turn])) = 3 \<and>
   list_all (\<lambda>m. m_role m = RoleAssistant)
     (convertToZhipuFormat stringify_examples (ContentArray [mixed_turn]))"
proof -
  have grouped: "groupedMessages stringify_examples (Some (js ''model''))
      [get_time_response, text_part (js ''a''), get_time_call, text_part (js ''b'')] =
     [\<lparr>m_role = RoleAssistant, m_content = ContentText (js ''ab'')\<rparr>,
      \<lparr>m_role = RoleAssistant,
       m_content = ContentItems
         [FunctionCallItem (Some (js ''get_time'')) (Some (js ''{}'')) (Some (js ''call_1''))]\<rparr>,
      \<lparr>m_role = RoleAssistant,
       m_content = ContentItems
         [FunctionResponseItem (Some (js ''get_time'')) (Some (js ''{}''))
            (Some (js ''call_1''))]\<rparr>]"
    by (simp add: groupedMessages_def map_filter_Cons textOf_def callOf_def responseOf_def
        kindOf_def get_time_response_def get_time_call_def text_part_def mapRole_def
        functionCallItem_def functionResponseItem_def stringify_examples_def js_Nil js_Cons)
  have elements: "contentMessages stringify_examples (ContentString (js ''now?'')) =
      [\<lparr>m_role = RoleUser, m_content = ContentText (js ''now?'')\<rparr>]"
    "contentMessages stringify_examples mixed_turn =
      groupedMessages stringify_examples (Some (js ''model''))
        [get_time_response, text_part (js ''a''), get_time_call, text_part (js ''b'')]"
    "contentMessages stringify_examples hi_without_role = []"
    by (simp_all add: contentMessages_def mixed_turn_def hi_without_role_def)
  have turn: "mixed_turn = ContentObject \<lparr>role = Present (Some (js ''model'')),
      parts = Present (Some [get_time_response, text_part (js ''a''), get_time_call,
                             text_part (js ''b'')])\<rparr>"
    by (simp add: mixed_turn_def)
  have model: "mapRole (Some (js ''model'')) = RoleAssistant"
    by (simp add: mapRole_def js_Cons)
  note at_turn = convertToZhipuFormat_grouped [of stringify_examples
      "[ContentString (js ''now?''), mixed_turn, hi_without_role]" mixed_turn
      "Some (js ''model'')"
      "[get_time_response, text_part (js ''a''), get_time_call, text_part (js ''b'')]"]
  have "convertToZhipuFormat stringify_examples
      (ContentArray [ContentString (js ''now?''), mixed_turn, hi_without_role]) =
    concat (map (contentMessages stringify_examples)
      [ContentString (js ''now?''), mixed_turn, hi_without_role])"
    by (rule at_turn [THEN conjunct1])
  then have array: "convertToZhipuFormat stringify_examples
      (ContentArray [ContentString (js ''now?''), mixed_turn, hi_without_role]) =
     [\<lparr>m_role = RoleUser, m_content = ContentText (js ''now?'')\<rparr>,
      \<lparr>m_role = RoleAssistant, m_content = ContentText (js ''ab'')\<rparr>,
      \<lparr>m_role = RoleAssistant,
       m_content = ContentItems
         [FunctionCallItem (Some (js ''get_time'')) (Some (js ''{}'')) (Some (js ''call_1''))]\<rparr>,
      \<lparr>m_role = RoleAssistant,
       m_content = ContentItems
         [FunctionResponseItem (Some (js ''get_time'')) (Some (js ''{}''))
            (Some (js ''call_1''))]\<rparr>]"
    by (simp only: elements grouped list.map concat.simps append.simps)
  have single: "convertToZhipuFormat stringify_examples (ContentSingle mixed_turn) = []"
    by (rule at_turn [THEN conjunct2, THEN conjunct1])
  have "length (convertToZhipuFormat stringify_examples (ContentArray [mixed_turn])) \<le> 3"
    unfolding turn by (rule at_turn [THEN conjunct2, THEN conjunct2, THEN conjunct2, THEN conjunct1])
  have messages: "convertToZhipuFormat stringify_examples (ContentArray [mixed_turn]) =
      groupedMessages stringify_examples (Some (js ''model''))
        [get_time_response, text_part (js ''a''), get_time_call, text_part (js ''b'')]"
    unfolding turn by (rule at_turn [THEN conjunct2, THEN conjunct2, THEN conjunct1])
  have three: "length (convertToZhipuFormat stringify_examples (ContentArray [mixed_turn])) = 3"
    unfolding messages grouped by simp
  have "\<forall>m \<in> set (convertToZhipuFormat stringify_examples (ContentArray [mixed_turn])).
      m_role m = mapRole (Some (js ''model''))"
    unfolding turn
    by (rule at_turn [THEN conjunct2, THEN conjunct2, THEN conjunct2, THEN conjunct2])
  then have roles: "list_all (\<lambda>m. m_role m = RoleAssistant)
      (convertToZhipuFormat stringify_examples (ContentArray [mixed_turn]))"
    by (simp only: model list_all_iff)
  from array single three roles show ?thesis
    by (intro conjI)
qed

theorem function_call_after_text:
  "convertToZhipuFormat stringify_examples (ContentArray [call_then_text]) =
     [\<lparr>m_role = RoleAssistant, m_content = ContentText (js ''hi'')\<rparr>,
      \<lparr>m_role = RoleAssistant,
       m_content = ContentItems
         [FunctionCallItem (Some (js ''get_time'')) (Some (js ''{}'')) (Some (js ''call_1''))]\<rparr>] \<and>
   convertToZhipuFormat stringify_examples
      (ContentArray [ContentObject \<lparr>role = Present (Some (js ''model'')),
                                    parts = Present (Some [text_with_call])\<rparr>]) =
     [\<lparr>m_role = RoleAssistant, m_content = ContentText (js ''hi'')\<rparr>]"
  by (simp add: convertToZhipuFormat_def call_then_text_def text_with_call_def convertContent_def
      get_time_call_def text_part_def mapRole_def functionCallItem_def stringify_examples_def
      js_Nil js_Cons)












lemma toolCallParts_unparsable:
  assumes "json_parse B a = None"
  shows "toolCallParts B
           (JObj [(js ''id'', i), (js ''type'', JStr (js ''function'')),
                  (js ''function'', JObj [(js ''name'', n), (js ''arguments'', a)])]) =
         ([ConsoleError ''Error parsing tool call arguments:'' SyntaxError],
          Inr [FunctionCallPart i n (JObj [])])"
  using assms
  by (simp add: toolCallParts_def JSON_parse_def js_literal comp_eval)

lemma contentItemParts_unparsable:
  assumes "json_parse B a = None"
  shows "contentItemParts B
           (JObj [(js ''type'', JStr (js ''function_call'')),
                  (js ''function_call'',
                   JObj [(js ''name'', n), (js ''arguments'', a), (js ''id'', i)])]) =
         ([], Inl SyntaxError)"
  using assms
  by (simp add: contentItemParts_def JSON_parse_def js_literal comp_eval)

lemma extractToolsFromRequest_no_config [simp]:
  "extractToolsFromRequest JUndefined = js_return None"
  by (simp add: extractToolsFromRequest_def)

lemma generateContent_JsonBody:
  "generateContent B stringify (\<lambda>rq. JsonBody zhipuResponse) model
      \<lparr>contents = cs, rq_config = JUndefined\<rparr> =
     js_try (buildResponse B zhipuResponse) (\<lambda>error. js_throw (ZhipuApiError error))"
  by (simp add: generateContent_def zhipuRequest_def)

lemma buildResponse_no_tool_calls:
  assumes "convertZhipuResponseToParts B content JUndefined = (es, r)"
  shows "buildResponse B (response_with content []) =
     (ConsoleLog ''ZHIPU: No tool calls received from API'' [] # es,
      case r of
        Inl e \<Rightarrow> Inl e
      | Inr ps \<Rightarrow>
          Inr \<lparr>responseId = JUndefined, modelVersion = JUndefined,
               candidates =
                 [\<lparr>c_index = JNum (Finite 0), c_role = js ''model'', c_parts = ps,
                    c_finishReason = STOP\<rparr>],
               usageMetadata = None\<rparr>)"
  using assms
  by (cases r)
    (simp_all add: buildResponse_def response_with_def logToolCalls_def js_literal js_map_def
      messageCandidate_def get_opt_def usageOf_def mapZhipuFinishReason_def comp_eval)

lemma buildResponse_one_tool_call:
  assumes "convertZhipuResponseToParts B content (JArr [toolCall]) = (es, r)"
    and "toolCall =
           JObj [(js ''id'', i), (js ''type'', JStr (js ''function'')),
                 (js ''function'', JObj [(js ''name'', n), (js ''arguments'', a)])]"
  shows "buildResponse B (response_with content [(js ''tool_calls'', JArr [toolCall])]) =
     (ConsoleLog ''ZHIPU: Received ${zhipuResponse.tool_calls.length} tool calls from API''
        [JNum (Finite 1)] #
      ConsoleLog ''ZHIPU: Tool call ${index + 1}: ${toolCall.function.name}''
        [JNum (Finite 1), n] # es,
      case r of
        Inl e \<Rightarrow> Inl e
      | Inr ps \<Rightarrow>
          Inr \<lparr>responseId = JUndefined, modelVersion = JUndefined,
               candidates =
                 [\<lparr>c_index = JNum (Finite 0), c_role = js ''model'', c_parts = ps,
                    c_finishReason = STOP\<rparr>],
               usageMetadata = None\<rparr>)"
  using assms(1)
  by (cases r)
    (simp_all add: buildResponse_def response_with_def logToolCalls_def js_literal js_map_def
      js_forEach_def js_length_def assms(2)
      messageCandidate_def get_opt_def usageOf_def mapZhipuFinishReason_def comp_eval)

lemma scenario_hello:
  "generateContent examples stringify_examples
      (\<lambda>rq. JsonBody
         (JObj [(js ''choices'',
                 JArr [JObj [(js ''index'', JNum (Finite 0)),
                             (js ''message'', JObj [(js ''content'', JStr (js ''hello''))]),
                             (js ''finish_reason'', JStr (js ''stop''))]])]))
      (js ''glm-4'') \<lparr>contents = ContentArray [user_hi], rq_config = JUndefined\<rparr> =
     ([ConsoleLog ''ZHIPU: No tool calls received from API'' []],
      Inr \<lparr>responseId = JUndefined, modelVersion = JUndefined,
           candidates =
             [\<lparr>c_index = JNum (Finite 0), c_role = js ''model'',
                c_parts = [TextPart (JStr (js ''hello''))], c_finishReason = STOP\<rparr>],
           usageMetadata = None\<rparr>)"
  by (simp add: generateContent_JsonBody buildResponse_def logToolCalls_def js_map_def
      messageCandidate_value messageContent_def field_def convertZhipuResponseToParts_def
      usageOf_def mapZhipuFinishReason_def js_literal comp_eval)

text \<open>
  C1: a top-level tool call whose arguments do not parse becomes a function-call part with
  the empty object for its arguments, after a logged error, and \<^verbatim>\<open>generateContent\<close> returns
  its response. A \<^verbatim>\<open>function_call\<close> item of a message content whose arguments do not parse
  is not converted: \<^verbatim>\<open>convertZhipuResponseToParts\<close> throws the SyntaxError of \<^verbatim>\<open>JSON.parse\<close>,
  and \<^verbatim>\<open>generateContent\<close> throws its wrapped error.
\<close>

theorem unparsable_arguments:
  assumes "json_parse B a = None"
    and "toolCall =
           JObj [(js ''id'', i), (js ''type'', JStr (js ''function'')),
                 (js ''function'', JObj [(js ''name'', n), (js ''arguments'', a)])]"
    and "item =
           JObj [(js ''type'', JStr (js ''function_call'')),
                 (js ''function_call'',
                  JObj [(js ''name'', n), (js ''arguments'', a), (js ''id'', i)])]"
  shows "convertZhipuResponseToParts B (JStr []) (JArr [toolCall]) =
           ([ConsoleError ''Error parsing tool call arguments:'' SyntaxError],
            Inr [FunctionCallPart i n (JObj [])]) \<and>
         convertZhipuResponseToParts B (JArr [item]) JUndefined = ([], Inl SyntaxError) \<and>
         snd (generateContent B stringify
               (\<lambda>rq. JsonBody (response_with (JStr []) [(js ''tool_calls'', JArr [toolCall])]))
               model \<lparr>contents = cs, rq_config = JUndefined\<rparr>) =
           Inr \<lparr>responseId = JUndefined, modelVersion = JUndefined,
                candidates =
                  [\<lparr>c_index = JNum (Finite 0), c_role = js ''model'',
                     c_parts = [FunctionCallPart i n (JObj [])], c_finishReason = STOP\<rparr>],
                usageMetadata = None\<rparr> \<and>
         snd (generateContent B stringify (\<lambda>rq. JsonBody (response_with (JArr [item]) []))
               model \<lparr>contents = cs, rq_config = JUndefined\<rparr>) =
           Inl (ZhipuApiError SyntaxError)"
proof -
  have tool: "convertZhipuResponseToParts B (JStr []) (JArr [toolCall]) =
           ([ConsoleError ''Error parsing tool call arguments:'' SyntaxError],
            Inr [FunctionCallPart i n (JObj [])])"
    using toolCallParts_unparsable [OF assms(1), of i n]
    by (simp add: convertZhipuResponseToParts_def assms(2) js_iterate_def comp_eval)
  have content: "convertZhipuResponseToParts B (JArr [item]) toolCalls = ([], Inl SyntaxError)"
    for toolCalls
    using contentItemParts_unparsable [OF assms(1), of n i]
    by (simp add: convertZhipuResponseToParts_def assms(3) comp_eval)
  show ?thesis
    using tool content [of JUndefined]
      buildResponse_one_tool_call [OF tool assms(2)] buildResponse_no_tool_calls [OF content]
    by (simp add: generateContent_JsonBody comp_eval)
qed

theorem unparsable_arguments_witness:
  "convertZhipuResponseToParts examples (JStr []) (JArr [get_time_tool_call (JStr (js ''{''))]) =
     ([ConsoleError ''Error parsing tool call arguments:'' SyntaxError],
      Inr [FunctionCallPart (JStr (js ''call_1'')) (JStr (js ''get_time'')) (JObj [])]) \<and>
   convertZhipuResponseToParts examples (JArr [function_call_item (JStr (js ''{''))]) JUndefined =
     ([], Inl SyntaxError) \<and>
   snd (generateContent examples stringify_examples
         (\<lambda>rq. JsonBody (response_with (JArr [function_call_item (JStr (js ''{''))]) []))
         (js ''glm-4'') \<lparr>contents = ContentArray [user_hi], rq_config = JUndefined\<rparr>) =
     Inl (ZhipuApiError SyntaxError)"
  using unparsable_arguments [of examples "JStr (js ''{'')" "get_time_tool_call (JStr (js ''{''))"
      "JStr (js ''call_1'')" "JStr (js ''get_time'')" "function_call_item (JStr (js ''{''))"
      stringify_examples "js ''glm-4''" "ContentArray [user_hi]"]
  by (simp add: parse_examples_rejects get_time_tool_call_def function_call_item_def)

lemma convert_plain:
  assumes "case content of JArr items \<Rightarrow> False | _ \<Rightarrow> True"
  shows "\<exists>ps. convertZhipuResponseToParts B content JUndefined = ([], Inr ps)"
  using assms by (cases content) (simp_all add: convertZhipuResponseToParts_def comp_eval)

lemma deltaCandidate_plain:
  assumes "plainChoice choice"
  shows "\<exists>c. deltaCandidate B choice = ([], Inr c)"
proof -
  from assms obtain kvs where choice: "choice = JObj kvs"
    by (cases choice) (simp_all add: plainChoice_def)
  from assms choice have "case deltaContent choice of JArr items \<Rightarrow> False | _ \<Rightarrow> True"
    by (simp add: plainChoice_def)
  then obtain ps where "convertZhipuResponseToParts B (deltaContent choice) JUndefined = ([], Inr ps)"
    using convert_plain by blast
  then show ?thesis
    using choice by (simp add: deltaCandidate_value comp_eval)
qed

lemma truthy_not_nullish: "truthy v \<Longrightarrow> v \<noteq> JUndefined \<and> v \<noteq> JNull"
  by (cases v) simp_all

lemma usageOf_total: "\<exists>u. usageOf (JObj kvs) = ([], Inr u)"
  using truthy_not_nullish [of "own kvs (js ''usage'')"]
  by (simp add: usageOf_def get_field comp_eval)

lemma has_elements_falsy: "\<not> truthy v \<Longrightarrow> has_elements B v = js_return False"
  by (simp add: has_elements_def)

lemma streamResponse_deltaChunk:
  assumes "deltaChunk zhipuResponse"
  shows "\<exists>r. streamResponse B zhipuResponse = ([], Inr r)"
proof -
  from assms obtain kvs where zr: "zhipuResponse = JObj kvs"
    by (cases zhipuResponse) (simp_all add: deltaChunk_def)
  from assms zr obtain cs where cs: "own kvs (js ''choices'') = JArr cs"
    and plain: "list_all plainChoice cs" and falsy: "\<not> truthy (own kvs (js ''tool_calls''))"
    by (cases "own kvs (js ''choices'')") (simp_all add: deltaChunk_def)
  have "\<forall>c \<in> set cs. \<exists>y. deltaCandidate B c = ([], Inr y)"
    using plain deltaCandidate_plain by (auto simp: list_all_iff)
  then obtain ys where ys: "js_mapM (deltaCandidate B) cs = ([], Inr ys)"
    using js_mapM_total by blast
  obtain u where u: "usageOf (JObj kvs) = ([], Inr u)"
    using usageOf_total by blast
  show ?thesis
    using zr cs ys u falsy
    by (simp add: streamResponse_def logToolCalls_def has_elements_falsy js_map_def comp_eval)
qed

lemma sentinel_no_newline: "0xA \<notin> set sentinel_line"
  by (simp add: sentinel_line_def js_literal)

lemma fragmentOfLine_sentinel: "fragmentOfLine B sentinel_line = None"
  by (simp add: fragmentOfLine_def sentinel_line_def slice_from_def js_literal)

lemma trim_Nil [simp]: "trim [] = []"
  by (simp add: trim_def)

lemma fragmentOfRemainder_Nil: "fragmentOfRemainder B [] = None"
  by (simp add: fragmentOfRemainder_def)

lemma unlines_snoc: "unlines (ls @ [l]) = unlines ls @ l @ [0xA]"
  by (simp add: unlines_def)

lemma errorOfLine_sentinel: "errorOfLine B sentinel_line = None"
  by (simp add: errorOfLine_def sentinel_line_def slice_from_def js_literal)

lemma errorOfLine_data_line:
  "p \<noteq> js ''[DONE]'' \<Longrightarrow>
   errorOfLine B (data_line p) =
     (case json_parse B (JStr p) of
        Some zhipuResponse \<Rightarrow>
          (case snd (streamResponse B zhipuResponse) of Inr r \<Rightarrow> None | Inl e \<Rightarrow> Some e)
      | None \<Rightarrow> Some SyntaxError)"
  by (simp add: errorOfLine_def startsWith_data_line slice_from_data_line)

lemma errorOfLine_blank: "errorOfLine B [] = None"
  by (simp add: errorOfLine_def startsWith_def js_literal)

lemma logged_errors_flush_Nil: "logged_errors (fst (flushBuffer B [])) = []"
  by (simp add: flushBuffer_def)

lemma logged_errors_lines:
  "logged_errors (concat (map (\<lambda>l. fst (processLine B l)) ls)) =
     map (Pair ''Error parsing Zhipu streaming response:'') (List.map_filter (errorOfLine B) ls)"
  by (induction ls)
    (auto simp: logged_errors_processLine map_filter_Cons split: option.splits)

text \<open>
  C3 (as amended): for a body made of complete lines that ends with the sentinel line,
  however it is cut into chunks, the generator returns without an exception. It yields, in
  the order of the lines, one response for each line that carries the event prefix, is not
  the sentinel, parses as JSON, and is built into a response without an exception. It logs,
  in the order of the lines, one error for each line that carries the event prefix, is not
  the sentinel, and either does not parse or is not built into a response; such a line
  yields nothing. Every line with the prefix other than the sentinel does one of the two;
  the sentinel and every line without the prefix yield nothing and log nothing. A payload
  that parses to an object without tool calls whose choices is an array of objects with a
  delta content that is no array is built into a response; a payload that does not parse
  is logged with the SyntaxError.
\<close>

theorem stream_fragments:
  assumes "\<forall>l \<in> set ls. 0xA \<notin> set l"
    and "concat chunks = unlines (ls @ [sentinel_line])"
  shows "snd (streamGenerator B chunks) = Inr () \<and>
         yields (fst (streamGenerator B chunks)) = List.map_filter (fragmentOfLine B) ls \<and>
         logged_errors (fst (streamGenerator B chunks)) =
           map (Pair ''Error parsing Zhipu streaming response:'')
             (List.map_filter (errorOfLine B) ls) \<and>
         (\<forall>l. startsWith l (js ''data: '') \<and> slice_from l 6 \<noteq> js ''[DONE]'' \<longrightarrow>
            (fragmentOfLine B l = None) = (errorOfLine B l \<noteq> None)) \<and>
         (\<forall>l. \<not> startsWith l (js ''data: '') \<or> slice_from l 6 = js ''[DONE]'' \<longrightarrow>
            fragmentOfLine B l = None \<and> errorOfLine B l = None) \<and>
         (\<forall>l zhipuResponse.
            startsWith l (js ''data: '') \<and> slice_from l 6 \<noteq> js ''[DONE]'' \<and>
            json_parse B (JStr (slice_from l 6)) = Some zhipuResponse \<and> deltaChunk zhipuResponse
            \<longrightarrow> fragmentOfLine B l \<noteq> None) \<and>
         (\<forall>l. startsWith l (js ''data: '') \<and> slice_from l 6 \<noteq> js ''[DONE]'' \<and>
            json_parse B (JStr (slice_from l 6)) = None \<longrightarrow>
            fragmentOfLine B l = None \<and> errorOfLine B l = Some SyntaxError)"
proof -
  have "\<forall>l \<in> set (ls @ [sentinel_line]). 0xA \<notin> set l"
    using assms(1) sentinel_no_newline by simp
  then have "split_nl (unlines (ls @ [sentinel_line]) @ []) = (ls @ [sentinel_line]) @ split_nl []"
    by (rule split_nl_unlines)
  then have lines: "split_nl (concat chunks) = ls @ [sentinel_line, []]"
    using assms(2) by simp
  have "yields (fst (streamGenerator B chunks)) = List.map_filter (fragmentOfLine B) ls"
    by (simp add: yields_streamGenerator lines butlast_append map_filter_Cons
        fragmentOfLine_sentinel fragmentOfRemainder_Nil)
  moreover have "logged_errors (fst (streamGenerator B chunks)) =
      map (Pair ''Error parsing Zhipu streaming response:'') (List.map_filter (errorOfLine B) ls)"
    by (simp add: streamGenerator_events lines butlast_append logged_errors_lines
        logged_errors_flush_Nil map_filter_Cons errorOfLine_sentinel del: map_append)
  moreover have "(fragmentOfLine B l = None) = (errorOfLine B l \<noteq> None)"
    if "startsWith l (js ''data: '')" and "slice_from l 6 \<noteq> js ''[DONE]''" for l
    using that by (simp add: fragmentOfLine_def errorOfLine_def split: option.splits sum.splits)
  moreover have "fragmentOfLine B l = None \<and> errorOfLine B l = None"
    if "\<not> startsWith l (js ''data: '') \<or> slice_from l 6 = js ''[DONE]''" for l
    using that by (auto simp: fragmentOfLine_def errorOfLine_def)
  moreover have "fragmentOfLine B l \<noteq> None"
    if prefix: "startsWith l (js ''data: '')" and payload: "slice_from l 6 \<noteq> js ''[DONE]''"
      and parsed: "json_parse B (JStr (slice_from l 6)) = Some zhipuResponse"
      and shape: "deltaChunk zhipuResponse" for l zhipuResponse
  proof -
    obtain r where "streamResponse B zhipuResponse = ([], Inr r)"
      using streamResponse_deltaChunk [OF shape] by blast
    then show ?thesis
      using prefix payload parsed by (simp add: fragmentOfLine_def)
  qed
  moreover have "fragmentOfLine B l = None \<and> errorOfLine B l = Some SyntaxError"
    if "startsWith l (js ''data: '')" and "slice_from l 6 \<noteq> js ''[DONE]''"
      and "json_parse B (JStr (slice_from l 6)) = None" for l
    using that by (simp add: fragmentOfLine_def errorOfLine_def)
  ultimately show ?thesis
    by (simp add: streamGenerator_events)
qed

lemma scenario_lines:
  "concat scenario_chunks =
     unlines ([data_line payload_he, [], data_line payload_llo, []] @ [sentinel_line])"
  by (simp add: scenario_chunks_def unlines_def data_line_def payload_he_def js_literal)

lemma logged_lines:
  "concat [data_line payload_he @ [0xA], data_line (js ''{'') @ [0xA],
           data_line payload_error @ [0xA] @ js ''event: ping'' @ [0xA],
           sentinel_line @ [0xA]] =
     unlines ([data_line payload_he, data_line (js ''{''), data_line payload_error,
               js ''event: ping''] @ [sentinel_line])"
  by (simp add: unlines_def)

theorem stream_fragments_witness:
  "snd (streamGenerator examples scenario_chunks) = Inr () \<and>
   yields (fst (streamGenerator examples scenario_chunks)) =
     [text_fragment ''he'', text_fragment ''llo''] \<and>
   logged_errors (fst (streamGenerator examples scenario_chunks)) = [] \<and>
   yields (fst (streamGenerator examples
      [data_line payload_he @ [0xA], data_line (js ''{'') @ [0xA],
       data_line payload_error @ [0xA] @ js ''event: ping'' @ [0xA],
       sentinel_line @ [0xA]])) = [text_fragment ''he''] \<and>
   logged_errors (fst (streamGenerator examples
      [data_line payload_he @ [0xA], data_line (js ''{'') @ [0xA],
       data_line payload_error @ [0xA] @ js ''event: ping'' @ [0xA],
       sentinel_line @ [0xA]])) =
     [(''Error parsing Zhipu streaming response:'', SyntaxError),
      (''Error parsing Zhipu streaming response:'', TypeError)] \<and>
   deltaChunk (delta_chunk ''he'') \<and>
   fragmentOfLine examples (data_line payload_he) = Some (text_fragment ''he'') \<and>
   errorOfLine examples (data_line payload_he) = None \<and>
   json_parse examples (JStr (js ''{'')) = None \<and>
   fragmentOfLine examples (data_line (js ''{'')) = None \<and>
   errorOfLine examples (data_line (js ''{'')) = Some SyntaxError \<and>
   fragmentOfLine examples (data_line payload_error) = None \<and>
   errorOfLine examples (data_line payload_error) = Some TypeError \<and>
   fragmentOfLine examples (js ''event: ping'') = None \<and>
   errorOfLine examples (js ''event: ping'') = None"
proof -
  have shape: "deltaChunk (delta_chunk ''he'')"
    by (simp add: deltaChunk_def delta_chunk_def plainChoice_def deltaContent_def field_def
        js_literal)
  have scenario: "\<forall>l \<in> set [data_line payload_he, [], data_line payload_llo, []]. 0xA \<notin> set l"
    by (simp add: data_line_no_newline) (simp add: payload_he_def payload_llo_def js_literal)
  have logged: "\<forall>l \<in> set [data_line payload_he, data_line (js ''{''), data_line payload_error,
      js ''event: ping'']. 0xA \<notin> set l"
    by (simp add: data_line_no_newline)
      (simp add: payload_he_def payload_error_def js_literal)
  have ping: "fragmentOfLine examples (js ''event: ping'') = None"
    "errorOfLine examples (js ''event: ping'') = None"
    by (simp_all add: fragmentOfLine_def errorOfLine_def startsWith_def js_literal)
  have brace: "js ''{'' \<noteq> js ''[DONE]''"
    by (simp add: js_literal)
  from stream_fragments [OF scenario scenario_lines, of examples]
    stream_fragments [OF logged logged_lines, of examples]
    shape
  show ?thesis
    by (simp add: map_filter_Cons fragmentOfLine_data_line fragmentOfLine_blank
        errorOfLine_data_line errorOfLine_blank payloads_differ brace ping
        parse_examples parse_examples_rejects streamResponse_delta_chunk
        streamResponse_error_value)
qed

theorem valid_json_line_without_fragment:
  "json_parse examples (JStr payload_error) = Some error_value \<and>
   streamGenerator examples [data_line payload_error @ [0xA] @ sentinel_line @ [0xA]] =
     ([ConsoleError ''Error parsing Zhipu streaming response:'' TypeError, ReleaseLock], Inr ())"
proof -
  have "\<forall>l \<in> set [data_line payload_error, sentinel_line]. 0xA \<notin> set l"
    by (simp add: data_line_no_newline sentinel_no_newline)
      (simp add: payload_error_def js_literal)
  then have "split_nl (unlines [data_line payload_error, sentinel_line] @ []) =
      [data_line payload_error, sentinel_line] @ split_nl []"
    by (rule split_nl_unlines)
  then have lines: "split_nl (data_line payload_error @ 0xA # sentinel_line @ [0xA]) =
      [data_line payload_error, sentinel_line, []]"
    by (simp add: unlines_def)
  have "processLine examples (data_line payload_error) =
      ([ConsoleError ''Error parsing Zhipu streaming response:'' TypeError], Inr ())"
    by (simp add: processLine_data_line payloads_differ JSON_parse_def parse_examples
        streamResponse_error_value comp_eval)
  moreover have "processLine examples sentinel_line = ([], Inr ())"
    by (simp add: processLine_def sentinel_line_def startsWith_def slice_from_def js_literal
        comp_eval)
  moreover have "flushBuffer examples [] = ([], Inr ())"
    by (simp add: flushBuffer_def comp_eval)
  ultimately show ?thesis
    by (simp add: streamGenerator_events lines parse_examples)
qed

text \<open>
  C4 (as amended): every response that the loop yields for a complete line comes from a
  line with the event prefix whose payload parses, and the parts of each of its candidates
  are what \<^verbatim>\<open>convertZhipuResponseToParts\<close> gives for the delta content of its choice with no
  tool calls. The generator does what the loop body does on each complete line, in order,
  then what the flush does on the text after the last line feed, then releases the
  reader; so every response it yields is yielded by the loop body for a complete line or
  by the flush. The flush trims that text; when nothing is left there is no parse attempt;
  otherwise it is parsed once, and it is emitted as one final fragment when it parses and
  the response is built without an exception; when either fails, the error is logged and
  nothing is emitted.
\<close>

theorem delta_parts_and_final_flush:
  "(Yield r \<in> set (fst (processLine B line)) \<longrightarrow>
      startsWith line (js ''data: '') \<and>
      (\<exists>zhipuResponse cs.
         json_parse B (JStr (slice_from line 6)) = Some zhipuResponse \<and>
         field zhipuResponse (js ''choices'') = JArr cs \<and>
         list_all2 (\<lambda>choice c.
             snd (convertZhipuResponseToParts B (deltaContent choice) JUndefined) = Inr (c_parts c))
           cs (candidates r))) \<and>
   streamGenerator B chunks =
     (concat (map (\<lambda>l. fst (processLine B l)) (butlast (split_nl (concat chunks)))) @
        fst (flushBuffer B (last (split_nl (concat chunks)))) @ [ReleaseLock],
      Inr ()) \<and>
   (Yield r' \<in> set (fst (streamGenerator B chunks)) \<longrightarrow>
      (\<exists>l \<in> set (butlast (split_nl (concat chunks))). Yield r' \<in> set (fst (processLine B l))) \<or>
      Yield r' \<in> set (fst (flushBuffer B (last (split_nl (concat chunks)))))) \<and>
   flushBuffer B buffer =
     (if trim buffer = [] then ([], Inr ())
      else
        (case json_parse B (JStr (trim buffer)) of
           None \<Rightarrow> ([ConsoleError ''Error parsing final Zhipu response:'' SyntaxError], Inr ())
         | Some final \<Rightarrow>
             (fst (finalResponse B final) @
                [case snd (finalResponse B final) of
                   Inr generateContentResponse \<Rightarrow> Yield generateContentResponse
                 | Inl e \<Rightarrow> ConsoleError ''Error parsing final Zhipu response:'' e],
              Inr ())))"
proof -
  have "startsWith line (js ''data: '') \<and>
      (\<exists>zhipuResponse cs.
         json_parse B (JStr (slice_from line 6)) = Some zhipuResponse \<and>
         field zhipuResponse (js ''choices'') = JArr cs \<and>
         list_all2 (\<lambda>choice c.
             snd (convertZhipuResponseToParts B (deltaContent choice) JUndefined) = Inr (c_parts c))
           cs (candidates r))"
    if "Yield r \<in> set (fst (processLine B line))"
  proof -
    from that have "fragmentOfLine B line = Some r"
      by (rule processLine_yielded)
    then obtain zhipuResponse where prefix: "startsWith line (js ''data: '')"
      and parsed: "json_parse B (JStr (slice_from line 6)) = Some zhipuResponse"
      and built: "snd (streamResponse B zhipuResponse) = Inr r"
      using fragmentOfLine_Some by blast
    from snd_streamResponse [OF built] prefix parsed show ?thesis
      by blast
  qed
  moreover have "(\<exists>l \<in> set (butlast (split_nl (concat chunks))).
        Yield r' \<in> set (fst (processLine B l))) \<or>
      Yield r' \<in> set (fst (flushBuffer B (last (split_nl (concat chunks)))))"
    if "Yield r' \<in> set (fst (streamGenerator B chunks))"
    using that by (auto simp: streamGenerator_events)
  ultimately show ?thesis
    using streamGenerator_events [of B chunks] flushBuffer_eq [of B buffer] by blast
qed

theorem delta_parts_and_final_flush_witness:
  "Yield (text_fragment ''he'') \<in> set (fst (processLine examples (data_line payload_he))) \<and>
   json_parse examples (JStr (slice_from (data_line payload_he) 6)) = Some (delta_chunk ''he'') \<and>
   snd (convertZhipuResponseToParts examples (JStr (js ''he'')) JUndefined) =
     Inr (c_parts (hd (candidates (text_fragment ''he'')))) \<and>
   streamGenerator examples [data_line payload_he @ [0xA] @ payload_final] =
     ([Yield (text_fragment ''he''), Yield final_fragment, ReleaseLock], Inr ()) \<and>
   flushBuffer examples payload_final = ([Yield final_fragment], Inr ())"
proof -
  have "0xA \<notin> set (data_line payload_he)"
    by (simp add: data_line_no_newline) (simp add: payload_he_def js_literal)
  then have "split_nl (data_line payload_he @ 0xA # payload_final) =
      data_line payload_he # split_nl payload_final"
    by (rule split_nl_line)
  moreover have "0xA \<notin> set payload_final"
    by (simp add: payload_final_def js_literal)
  ultimately have lines: "split_nl (data_line payload_he @ 0xA # payload_final) =
      [data_line payload_he, payload_final]"
    by (simp add: split_nl_no_newline)
  have line: "processLine examples (data_line payload_he) = ([Yield (text_fragment ''he'')], Inr ())"
    by (simp add: processLine_data_line payloads_differ JSON_parse_def parse_examples
        streamResponse_delta_chunk comp_eval)
  then have yielded: "Yield (text_fragment ''he'') \<in> set (fst (processLine examples (data_line payload_he)))"
    by simp
  have nonempty: "payload_final \<noteq> []"
    by (simp add: payload_final_def js_literal)
  note at_he = delta_parts_and_final_flush [where r = "text_fragment ''he''" and B = examples
      and line = "data_line payload_he" and r' = final_fragment
      and chunks = "[data_line payload_he @ [0xA] @ payload_final]" and buffer = payload_final]
  from at_he yielded obtain zhipuResponse cs
    where parsed: "json_parse examples (JStr (slice_from (data_line payload_he) 6)) =
        Some zhipuResponse"
      and choices: "field zhipuResponse (js ''choices'') = JArr cs"
      and parts: "list_all2 (\<lambda>choice c.
          snd (convertZhipuResponseToParts examples (deltaContent choice) JUndefined) =
            Inr (c_parts c)) cs (candidates (text_fragment ''he''))"
    by blast
  from parsed have response: "zhipuResponse = delta_chunk ''he''"
    by (simp add: slice_from_data_line parse_examples)
  with choices have "cs = [JObj [(js ''index'', JNum (Finite 0)),
      (js ''delta'', JObj [(js ''content'', JStr (js ''he''))])]]"
    by (simp add: delta_chunk_def field_def js_literal)
  with parts have "snd (convertZhipuResponseToParts examples (JStr (js ''he'')) JUndefined) =
      Inr (c_parts (hd (candidates (text_fragment ''he''))))"
    by (simp add: text_fragment_def deltaContent_def field_def js_literal)
  with at_he yielded parsed response nonempty show ?thesis
    by (simp add: lines line trim_payload_final parse_examples finalResponse_final_value)
qed

theorem parsed_remainder_without_fragment:
  "json_parse examples (JStr (trim payload_error)) = Some error_value \<and>
   streamGenerator examples [payload_error] =
     ([ConsoleError ''Error parsing final Zhipu response:'' TypeError, ReleaseLock], Inr ()) \<and>
   streamGenerator examples [[0x20]] = ([ReleaseLock], Inr ())"
proof -
  have "0xA \<notin> set payload_error"
    by (simp add: payload_error_def js_literal)
  then have "split_nl payload_error = [payload_error]"
    by (rule split_nl_no_newline)
  moreover have "payload_error \<noteq> []"
    by (simp add: payload_error_def js_literal)
  moreover have "trim [0x20] = []"
    by (rule trim_blank) (simp add: is_js_space_def)
  ultimately show ?thesis
    by (simp add: streamGenerator_events flushBuffer_eq trim_payload_error parse_examples
        finalResponse_error_value)
qed



lemma last_split_nl_boundary:
  assumes "before = [] \<or> last before = 0xA"
  shows "last (split_nl before) = []"
proof (cases "before = []")
  case True
  then show ?thesis by simp
next
  case False
  with assms have "before = butlast before @ [0xA]"
    by (metis append_butlast_last_id)
  then have "split_nl before =
      butlast (split_nl (butlast before)) @ split_nl (last (split_nl (butlast before)) @ [0xA])"
    using split_nl_carry [of "butlast before" "[0xA]"] by simp
  moreover have "0xA \<notin> set (last (split_nl (butlast before)))"
    by (rule split_nl_segments [of _ "butlast before"]) simp
  ultimately show ?thesis
    using split_nl_line [of "last (split_nl (butlast before))" "[]"] by simp
qed

lemma processLine_skipped:
  "\<not> startsWith line (js ''data: '') \<Longrightarrow> processLine B line = ([], Inr ())"
  by (simp add: processLine_def js_return_def)

text \<open>
  C10: a complete line that does not begin with the event prefix does nothing: it yields no
  fragment and logs nothing, and the stream with the line is processed exactly as the
  stream without it.
\<close>

theorem other_lines_skipped:
  assumes "\<not> startsWith line (js ''data: '')"
    and "0xA \<notin> set line"
    and "before = [] \<or> last before = 0xA"
    and "concat chunks = before @ line @ [0xA] @ after"
    and "concat chunks' = before @ after"
  shows "processLine B line = ([], Inr ()) \<and>
         js_for_each (processLine B) (ls @ line # ls') = js_for_each (processLine B) (ls @ ls') \<and>
         streamGenerator B chunks = streamGenerator B chunks'"
proof -
  have skipped: "processLine B line = ([], Inr ())"
    using assms(1) by (rule processLine_skipped)
  have loop: "js_for_each (processLine B) (ls @ line # ls') = js_for_each (processLine B) (ls @ ls')"
    by (simp add: js_for_each_append skipped js_bind_Inr)
  have boundary: "last (split_nl before) = []"
    using assms(3) by (rule last_split_nl_boundary)
  have "split_nl (concat chunks) = butlast (split_nl before) @ split_nl (line @ 0xA # after)"
    using split_nl_carry [of before "line @ 0xA # after"] boundary assms(4) by simp
  then have with_line: "split_nl (concat chunks) =
      butlast (split_nl before) @ line # split_nl after"
    using assms(2) by (simp add: split_nl_line)
  have without: "split_nl (concat chunks') = butlast (split_nl before) @ split_nl after"
    using split_nl_carry [of before after] boundary assms(5) by simp
  have "streamGenerator B chunks = streamGenerator B chunks'"
    by (simp add: streamGenerator_events with_line without butlast_append skipped)
  with skipped loop show ?thesis by simp
qed

theorem other_lines_skipped_witness:
  "processLine examples (js '': keep-alive'') = ([], Inr ()) \<and>
   processLine examples [] = ([], Inr ()) \<and>
   streamGenerator examples
     [data_line payload_he @ [0xA], js '': keep-alive'' @ [0xA],
      data_line payload_llo @ [0xA]] =
   streamGenerator examples [data_line payload_he @ [0xA], data_line payload_llo @ [0xA]]"
proof -
  have "\<not> startsWith (js '': keep-alive'') (js ''data: '')"
    by (simp add: startsWith_def js_literal)
  moreover have "0xA \<notin> set (js '': keep-alive'')"
    by (simp add: js_literal)
  moreover have "\<not> startsWith [] (js ''data: '')"
    by (simp add: startsWith_def js_literal)
  ultimately show ?thesis
    using other_lines_skipped [of "js '': keep-alive''" "data_line payload_he @ [0xA]"
        "[data_line payload_he @ [0xA], js '': keep-alive'' @ [0xA], data_line payload_llo @ [0xA]]"
        "data_line payload_llo @ [0xA]"
        "[data_line payload_he @ [0xA], data_line payload_llo @ [0xA]]" examples "[]" "[]"]
      processLine_skipped [of "[]" examples]
    by simp
qed

end
